theory Spec2Isabelle
  imports Complex_Main "HOL-Library.Char_ord" "HOL-Library.List_Lexorder"
begin

section \<open>The repair-request tracker: database.py and the helpers of app.py\<close>

text \<open>
  The class \<open>Database\<close> keeps everything in SQLite tables and reaches them through one
  connection. The model below holds each table as the list of its rows in insertion order,
  and the connection as a pair of table sets: \<open>cur\<close>, what the connection reads and has
  written so far, and \<open>disk\<close>, what the last \<open>commit()\<close> made durable. Every method of
  \<open>Database\<close> becomes a function from the connection state (and the clock readings it
  takes) to its return value and the new connection state.

  Text is held as \<open>string\<close>, the UTF-8 bytes SQLite stores for a \<open>TEXT\<close> value, so
  that the Cyrillic status names are the byte strings written out below and equality of
  texts is equality of byte lists. Python's floats are idealised as \<open>real\<close>.
\<close>

subsection \<open>Text constants and number formatting\<close>

definition status_open :: string where
  \<comment> \<open>the UTF-8 bytes of the status "opened" of create\_tables and add\_request\<close>
  "status_open = [CHR 0xD0, CHR 0xBE, CHR 0xD1, CHR 0x82, CHR 0xD0, CHR 0xBA, CHR 0xD1, CHR 0x80,
     CHR 0xD1, CHR 0x8B, CHR 0xD1, CHR 0x82, CHR 0xD0, CHR 0xB0]"

definition status_in_repair :: string where
  \<comment> \<open>the UTF-8 bytes of the status "being repaired" offered by page\_view\_request\<close>
  "status_in_repair = [CHR 0xD0, CHR 0xB2, CHR 0x20, CHR 0xD0, CHR 0xBF, CHR 0xD1, CHR 0x80,
     CHR 0xD0, CHR 0xBE, CHR 0xD1, CHR 0x86, CHR 0xD0, CHR 0xB5, CHR 0xD1, CHR 0x81, CHR 0xD1,
     CHR 0x81, CHR 0xD0, CHR 0xB5, CHR 0x20, CHR 0xD1, CHR 0x80, CHR 0xD0, CHR 0xB5, CHR 0xD0,
     CHR 0xBC, CHR 0xD0, CHR 0xBE, CHR 0xD0, CHR 0xBD, CHR 0xD1, CHR 0x82, CHR 0xD0, CHR 0xB0]"

definition status_completed :: string where
  \<comment> \<open>the UTF-8 bytes of the status "completed" tested by update\_request\_status\<close>
  "status_completed = [CHR 0xD0, CHR 0xB7, CHR 0xD0, CHR 0xB0, CHR 0xD0, CHR 0xB2, CHR 0xD0,
     CHR 0xB5, CHR 0xD1, CHR 0x80, CHR 0xD1, CHR 0x88, CHR 0xD0, CHR 0xB5, CHR 0xD0, CHR 0xBD,
     CHR 0xD0, CHR 0xB0]"

definition digit_char :: "nat \<Rightarrow> char" where
  "digit_char n = ''0123456789'' ! n"

fun dec :: "nat \<Rightarrow> string" where
  "dec n = (if n < 10 then [digit_char n] else dec (n div 10) @ [digit_char (n mod 10)])"

declare dec.simps [simp del]

definition zpad :: "nat \<Rightarrow> string \<Rightarrow> string" where
  \<comment> \<open>Python's \<open>{:0wd}\<close> on a non-negative integer: zeros on the left up to width w, never a cut\<close>
  "zpad w s = replicate (w - length s) (CHR ''0'') @ s"

subsection \<open>Clock readings: datetime, timedelta(days), strftime\<close>

text \<open>
  A \<open>datetime\<close> object is its seven fields. The day arithmetic is the proleptic Gregorian
  ordinal of Python's datetime module (\<open>_ymd2ord\<close>, \<open>_ord2ymd\<close>), day 1 being 0001-01-01
  and day 3652059 being 9999-12-31.
\<close>

record datetime =
  year :: int
  month :: int
  day :: int
  hour :: int
  minute :: int
  second :: int
  microsecond :: int

definition is_leap :: "int \<Rightarrow> bool" where
  "is_leap y = (y mod 4 = 0 \<and> (y mod 100 \<noteq> 0 \<or> y mod 400 = 0))"

definition days_before_year :: "int \<Rightarrow> int" where
  "days_before_year y = (let p = y - 1 in p * 365 + p div 4 - p div 100 + p div 400)"

definition days_in_month_tab :: "int \<Rightarrow> int" where
  "days_in_month_tab m = [-1, 31, 28, 31, 30, 31, 30, 31, 31, 30, 31, 30, 31] ! nat m"

definition days_before_month_tab :: "int \<Rightarrow> int" where
  "days_before_month_tab m = [-1, 0, 31, 59, 90, 120, 151, 181, 212, 243, 273, 304, 334] ! nat m"

definition days_before_month :: "int \<Rightarrow> int \<Rightarrow> int" where
  "days_before_month y m = days_before_month_tab m + (if m > 2 \<and> is_leap y then 1 else 0)"

definition ymd2ord :: "int \<Rightarrow> int \<Rightarrow> int \<Rightarrow> int" where
  "ymd2ord y m d = days_before_year y + days_before_month y m + d"

definition ord2ymd :: "int \<Rightarrow> int \<times> int \<times> int" where
  "ord2ymd n0 =
     (let n = n0 - 1;
          n400 = n div 146097; n = n mod 146097;
          n100 = n div 36524; n = n mod 36524;
          n4 = n div 1461; n = n mod 1461;
          n1 = n div 365; n = n mod 365;
          y = n400 * 400 + 1 + n100 * 100 + n4 * 4 + n1
      in if n1 = 4 \<or> n100 = 4 then (y - 1, 12, 31)
         else
           let leapyear = (n1 = 3 \<and> (n4 \<noteq> 24 \<or> n100 = 3));
               m = (n + 50) div 32;
               preceding = days_before_month_tab m + (if m > 2 \<and> leapyear then 1 else 0)
           in if preceding > n
              then let m' = m - 1;
                       preceding' = preceding
                         - (days_in_month_tab m' + (if m' = 2 \<and> leapyear then 1 else 0))
                   in (y, m', n - preceding' + 1)
              else (y, m, n - preceding + 1))"

definition max_ordinal :: int where
  "max_ordinal = 3652059"

definition plus_days :: "datetime \<Rightarrow> int \<Rightarrow> datetime option" where
  \<comment> \<open>\<open>dt + timedelta(days=k)\<close>; None is the OverflowError of timedelta or of the result\<close>
  "plus_days dt k =
     (if k < -999999999 \<or> 999999999 < k then None
      else let n = ymd2ord (year dt) (month dt) (day dt) + k
           in if 0 < n \<and> n \<le> max_ordinal
              then (case ord2ymd n of (y, m, d) \<Rightarrow> Some (dt\<lparr>year := y, month := m, day := d\<rparr>))
              else None)"

definition strftime_Ymd :: "datetime \<Rightarrow> string" where
  \<comment> \<open>\<open>strftime("%Y%m%d")\<close>, the year written with four digits\<close>
  "strftime_Ymd dt =
     zpad 4 (dec (nat (year dt))) @ zpad 2 (dec (nat (month dt))) @ zpad 2 (dec (nat (day dt)))"

definition strftime_full :: "datetime \<Rightarrow> string" where
  \<comment> \<open>\<open>strftime("%Y-%m-%d %H:%M:%S")\<close>\<close>
  "strftime_full dt =
     zpad 4 (dec (nat (year dt))) @ ''-'' @ zpad 2 (dec (nat (month dt))) @ ''-''
       @ zpad 2 (dec (nat (day dt))) @ '' '' @ zpad 2 (dec (nat (hour dt))) @ '':''
       @ zpad 2 (dec (nat (minute dt))) @ '':'' @ zpad 2 (dec (nat (second dt)))"

definition valid_datetime :: "datetime \<Rightarrow> bool" where
  \<comment> \<open>the field ranges every datetime object has\<close>
  "valid_datetime dt =
     (1 \<le> year dt \<and> year dt \<le> 9999 \<and> 1 \<le> month dt \<and> month dt \<le> 12
      \<and> 1 \<le> day dt \<and> day dt \<le> 31 \<and> 0 \<le> hour dt \<and> hour dt \<le> 23
      \<and> 0 \<le> minute dt \<and> minute dt \<le> 59 \<and> 0 \<le> second dt \<and> second dt \<le> 59
      \<and> 0 \<le> microsecond dt \<and> microsecond dt \<le> 999999)"

subsection \<open>Values and rows\<close>

datatype pyval = PNone | PInt int | PFloat real | PStr string | PBytes string | PObj
  \<comment> \<open>a value of a dict passed in (typed Any): None, int, float, str, bytes, anything else\<close>

datatype sqlval = Null | Integer int | Real real | Text string | Blob string
  \<comment> \<open>a value held by a column\<close>

definition bind :: "pyval \<Rightarrow> sqlval option" where
  \<comment> \<open>binding a Python value to a \<open>?\<close> of a statement; None where sqlite3 raises\<close>
  "bind v = (case v of
       PNone \<Rightarrow> Some Null
     | PInt i \<Rightarrow> if - (2 ^ 63) \<le> i \<and> i < 2 ^ 63 then Some (Integer i) else None
     | PFloat x \<Rightarrow> Some (Real x)
     | PStr s \<Rightarrow> Some (Text s)
     | PBytes b \<Rightarrow> Some (Blob b)
     | PObj \<Rightarrow> None)"

definition truthy :: "pyval \<Rightarrow> bool" where
  "truthy v = (case v of
       PNone \<Rightarrow> False
     | PInt i \<Rightarrow> i \<noteq> 0
     | PFloat x \<Rightarrow> x \<noteq> 0
     | PStr s \<Rightarrow> s \<noteq> []
     | PBytes b \<Rightarrow> b \<noteq> []
     | PObj \<Rightarrow> True)"

definition py_float :: "(string \<Rightarrow> real option) \<Rightarrow> pyval \<Rightarrow> real option" where
  \<comment> \<open>\<open>float(v)\<close>; the parsing of a text is Python's and is a parameter; None where it raises\<close>
  "py_float float_of_text v = (case v of
       PNone \<Rightarrow> None
     | PInt i \<Rightarrow> Some (of_int i)
     | PFloat x \<Rightarrow> Some x
     | PStr s \<Rightarrow> float_of_text s
     | PBytes b \<Rightarrow> float_of_text b
     | PObj \<Rightarrow> None)"

record user =
  u_id :: int
  username :: string
  password :: string
  full_name :: string
  role :: string
  is_active :: bool

record request =
  r_id :: int
  request_number :: string
  created_date :: string
  equipment_type :: sqlval
  device_model :: sqlval
  fault_type :: sqlval
  problem_description :: sqlval
  customer_name :: sqlval
  customer_phone :: sqlval
  status :: string
  assigned_to :: "int option"
  assist_to :: "int option"
  estimated_cost :: sqlval
  actual_cost :: sqlval
  deadline :: sqlval
  deadline_extended_to :: "string option"
  extension_reason :: "string option"
  client_approval :: "string option"
  client_approval_at :: "string option"
  extended_by :: "int option"
  completed_date :: "string option"

record status_history_entry =
  h_id :: int
  h_request_id :: int
  old_status :: "string option"
  new_status :: string
  changed_by :: "int option"
  changed_at :: string

record help_request =
  hr_id :: int
  hr_request_id :: int
  requested_by :: int
  message :: string
  hr_status :: string
  hr_created_at :: string
  resolved_by :: "int option"
  resolved_at :: "string option"
  resolution_note :: "string option"

record tables =
  users :: "user list"
  requests :: "request list"
  status_history :: "status_history_entry list"
  help_requests :: "help_request list"

record database =
  cur :: tables
  disk :: tables

definition commit :: "database \<Rightarrow> database" where
  "commit db = db\<lparr>disk := cur db\<rparr>"

definition next_id :: "int list \<Rightarrow> int" where
  \<comment> \<open>the rowid an AUTOINCREMENT key gives the next row: one more than the largest in use\<close>
  "next_id ids = foldr max ids 0 + 1"

definition user_exists :: "tables \<Rightarrow> int option \<Rightarrow> bool" where
  \<comment> \<open>the constraint \<open>REFERENCES users(id)\<close> on a nullable column\<close>
  "user_exists t ref = (case ref of None \<Rightarrow> True | Some i \<Rightarrow> i \<in> set (map u_id (users t)))"

definition find_request :: "tables \<Rightarrow> int \<Rightarrow> request option" where
  \<comment> \<open>\<open>SELECT ... FROM requests WHERE id=?\<close> followed by \<open>fetchone()\<close>\<close>
  "find_request t i = find (\<lambda>r. r_id r = i) (requests t)"

definition update_requests_where_id :: "int \<Rightarrow> (request \<Rightarrow> request) \<Rightarrow> tables \<Rightarrow> tables" where
  \<comment> \<open>\<open>UPDATE requests SET ... WHERE id=?\<close>\<close>
  "update_requests_where_id i f t =
     t\<lparr>requests := map (\<lambda>r. if r_id r = i then f r else r) (requests t)\<rparr>"

subsection \<open>update\_request\_status\<close>

text \<open>
  The method reads the old status, updates the row, inserts the history row and commits;
  any exception is caught by a handler that prints and returns False without a rollback,
  so what was executed before the exception stays in the connection's open transaction.
  The insert is rejected by the foreign key of \<open>changed_by\<close> when no such user exists.
  \<open>ts\<close> is the \<open>CURRENT_TIMESTAMP\<close> the history row gets by default.
\<close>

definition update_request_status ::
  "database \<Rightarrow> datetime \<Rightarrow> string \<Rightarrow> int \<Rightarrow> string \<Rightarrow> int option \<Rightarrow> bool \<times> database" where
  "update_request_status db now ts request_id new_st changed =
     (case find_request (cur db) request_id of
        None \<Rightarrow> (False, db)
      | Some row \<Rightarrow>
          let old = status row;
              completed = (if new_st = status_completed then Some (strftime_full now) else None);
              t1 = update_requests_where_id request_id
                     (\<lambda>r. r\<lparr>status := new_st, completed_date := completed\<rparr>) (cur db);
              actor = (case changed of None \<Rightarrow> None | Some u \<Rightarrow> if u = 0 then None else Some u)
          in if \<not> user_exists t1 actor then (False, db\<lparr>cur := t1\<rparr>)
             else
               let t2 = t1\<lparr>status_history := status_history t1 @
                          [\<lparr>h_id = next_id (map h_id (status_history t1)),
                            h_request_id = request_id, old_status = Some old,
                            new_status = new_st, changed_by = actor, changed_at = ts\<rparr>]\<rparr>
               in (True, \<lparr>cur = t2, disk = t2\<rparr>))"

definition run_status_calls ::
  "database \<Rightarrow> (datetime \<times> string \<times> int \<times> string \<times> int option) list \<Rightarrow> database" where
  \<comment> \<open>a sequence of calls of update\_request\_status on one connection\<close>
  "run_status_calls db calls =
     foldl (\<lambda>d (now, ts, i, s, u). snd (update_request_status d now ts i s u)) db calls"

definition completed_date_consistent :: "tables \<Rightarrow> bool" where
  "completed_date_consistent t =
     (\<forall>r \<in> set (requests t). (completed_date r \<noteq> None) = (status r = status_completed))"

subsection \<open>generate\_request\_number and add\_request\<close>

definition ascii_upper :: "char \<Rightarrow> char" where
  \<comment> \<open>LIKE compares the letters a-z without regard to case, every other byte exactly\<close>
  "ascii_upper c =
     (case map_of (zip ''abcdefghijklmnopqrstuvwxyz'' ''ABCDEFGHIJKLMNOPQRSTUVWXYZ'') c of
        Some u \<Rightarrow> u | None \<Rightarrow> c)"

definition sql_like_prefix :: "string \<Rightarrow> string \<Rightarrow> bool" where
  \<comment> \<open>\<open>s LIKE p%\<close> for a pattern p without wildcards of its own\<close>
  "sql_like_prefix p s = (map ascii_upper (take (length p) s) = map ascii_upper p)"

definition same_day_numbers :: "tables \<Rightarrow> string \<Rightarrow> string list" where
  \<comment> \<open>the request numbers the \<open>COUNT(*) ... LIKE\<close> query counts, in insertion order\<close>
  "same_day_numbers t day_prefix =
     filter (sql_like_prefix day_prefix) (map request_number (requests t))"

definition generate_request_number :: "tables \<Rightarrow> datetime \<Rightarrow> string" where
  "generate_request_number t now =
     (let prefix = ''REQ'';
          date_part = strftime_Ymd now;
          cnt = length (same_day_numbers t (prefix @ date_part)) + 1
      in prefix @ date_part @ zpad 4 (dec cnt))"

record request_data =
  rd_equipment_type :: pyval
  rd_device_model :: pyval
  rd_fault_type :: pyval
  rd_problem_description :: pyval
  rd_customer_name :: pyval
  rd_customer_phone :: pyval
  rd_estimated_cost :: pyval

definition default_deadline_days :: int where
  "default_deadline_days = 3"

definition new_request_row ::
  "int \<Rightarrow> string \<Rightarrow> string \<Rightarrow> sqlval \<times> sqlval \<times> sqlval \<times> sqlval \<times> sqlval \<times> sqlval
     \<Rightarrow> real \<Rightarrow> string \<Rightarrow> request" where
  \<comment> \<open>the row of the INSERT of add\_request; the columns it does not name get their defaults\<close>
  "new_request_row rid number ts six cost deadline_text =
     (case six of (et, dm, ft, pd, cn, cp) \<Rightarrow>
       \<lparr>r_id = rid, request_number = number, created_date = ts,
        equipment_type = et, device_model = dm, fault_type = ft, problem_description = pd,
        customer_name = cn, customer_phone = cp, status = status_open,
        assigned_to = None, assist_to = None,
        estimated_cost = Real cost, actual_cost = Null,
        deadline = Text deadline_text, deadline_extended_to = None,
        extension_reason = None, client_approval = None, client_approval_at = None,
        extended_by = None, completed_date = None\<rparr>)"

definition bind_request_data ::
  "request_data \<Rightarrow> (sqlval \<times> sqlval \<times> sqlval \<times> sqlval \<times> sqlval \<times> sqlval) option" where
  "bind_request_data d =
     (case (bind (rd_equipment_type d), bind (rd_device_model d), bind (rd_fault_type d),
            bind (rd_problem_description d), bind (rd_customer_name d),
            bind (rd_customer_phone d)) of
        (Some et, Some dm, Some ft, Some pd, Some cn, Some cp) \<Rightarrow> Some (et, dm, ft, pd, cn, cp)
      | _ \<Rightarrow> None)"

text \<open>
  add\_request reads the clock twice (\<open>now_n\<close> inside generate\_request\_number, \<open>now_d\<close>
  for the deadline) and SQLite stamps \<open>CURRENT_TIMESTAMP\<close> on each of the two rows
  (\<open>ts_r\<close>, \<open>ts_h\<close>). Every exception (the overflow of the date, a cost that float()
  rejects, a value sqlite3 cannot bind, the UNIQUE constraint of the number) happens
  before anything is written and makes the method return None.
\<close>

definition add_request ::
  "(string \<Rightarrow> real option) \<Rightarrow> database \<Rightarrow> datetime \<Rightarrow> datetime \<Rightarrow> string \<Rightarrow> string
     \<Rightarrow> request_data \<Rightarrow> int \<Rightarrow> int option \<times> database" where
  "add_request float_of_text db now_n now_d ts_r ts_h data days =
     (let number = generate_request_number (cur db) now_n
      in case plus_days now_d days of
           None \<Rightarrow> (None, db)
         | Some dl \<Rightarrow>
            (case py_float float_of_text
                    (if truthy (rd_estimated_cost data) then rd_estimated_cost data else PInt 0) of
               None \<Rightarrow> (None, db)
             | Some cost \<Rightarrow>
                (case bind_request_data data of
                   None \<Rightarrow> (None, db)
                 | Some six \<Rightarrow>
                    if number \<in> set (map request_number (requests (cur db))) then (None, db)
                    else
                      let rid = next_id (map r_id (requests (cur db)));
                          t1 = (cur db)\<lparr>requests := requests (cur db) @
                                 [new_request_row rid number ts_r six cost (strftime_full dl)]\<rparr>;
                          t2 = t1\<lparr>status_history := status_history t1 @
                                 [\<lparr>h_id = next_id (map h_id (status_history t1)),
                                   h_request_id = rid, old_status = None,
                                   new_status = status_open, changed_by = None,
                                   changed_at = ts_h\<rparr>]\<rparr>
                      in (Some rid, \<lparr>cur = t2, disk = t2\<rparr>))))"

definition request_history :: "tables \<Rightarrow> int \<Rightarrow> status_history_entry list" where
  \<comment> \<open>the history rows of one request, oldest first\<close>
  "request_history t rid = filter (\<lambda>h. h_request_id h = rid) (status_history t)"

definition history_refs_ok :: "tables \<Rightarrow> bool" where
  \<comment> \<open>the foreign key of status\_history.request\_id\<close>
  "history_refs_ok t =
     (\<forall>h \<in> set (status_history t). h_request_id h \<in> set (map r_id (requests t)))"

definition ids_positive :: "tables \<Rightarrow> bool" where
  \<comment> \<open>rowids of the AUTOINCREMENT key start at 1\<close>
  "ids_positive t = (\<forall>r \<in> set (requests t). 0 < r_id r)"

subsection \<open>update\_request\<close>

definition allowed :: "string list" where
  "allowed = [''equipment_type'', ''device_model'', ''fault_type'', ''problem_description'',
     ''customer_name'', ''customer_phone'', ''estimated_cost'', ''actual_cost'', ''deadline'']"

definition set_column :: "string \<Rightarrow> sqlval \<Rightarrow> request \<Rightarrow> request" where
  \<comment> \<open>one \<open>k=?\<close> of the SET clause\<close>
  "set_column k v r =
     (if k = ''equipment_type'' then r\<lparr>equipment_type := v\<rparr>
      else if k = ''device_model'' then r\<lparr>device_model := v\<rparr>
      else if k = ''fault_type'' then r\<lparr>fault_type := v\<rparr>
      else if k = ''problem_description'' then r\<lparr>problem_description := v\<rparr>
      else if k = ''customer_name'' then r\<lparr>customer_name := v\<rparr>
      else if k = ''customer_phone'' then r\<lparr>customer_phone := v\<rparr>
      else if k = ''estimated_cost'' then r\<lparr>estimated_cost := v\<rparr>
      else if k = ''actual_cost'' then r\<lparr>actual_cost := v\<rparr>
      else if k = ''deadline'' then r\<lparr>deadline := v\<rparr>
      else r)"

definition set_columns :: "(string \<times> sqlval) list \<Rightarrow> request \<Rightarrow> request" where
  "set_columns kvs r = fold (\<lambda>(k, v). set_column k v) kvs r"

definition update_request ::
  "database \<Rightarrow> int \<Rightarrow> (string \<rightharpoonup> pyval) \<Rightarrow> bool \<times> database" where
  "update_request db request_id update_data =
     (let fields = filter (\<lambda>k. update_data k \<noteq> None) allowed
      in if fields = [] then (True, db)
         else
           case those (map (\<lambda>k. Option.bind (update_data k) bind) fields) of
             None \<Rightarrow> (False, db)
           | Some values \<Rightarrow>
               let t1 = update_requests_where_id request_id
                          (set_columns (zip fields values)) (cur db)
               in (find_request (cur db) request_id \<noteq> None, \<lparr>cur = t1, disk = t1\<rparr>))"

text \<open>
  The columns of a request that are not in the whitelist, and the read of a whitelisted
  column by its name (None for every other name).
\<close>

definition protected_fields ::
  "request \<Rightarrow> (int \<times> string \<times> string \<times> string \<times> int option \<times> int option)
     \<times> (string option \<times> string option \<times> string option \<times> string option \<times> int option
        \<times> string option)" where
  "protected_fields r =
     ((r_id r, request_number r, created_date r, status r, assigned_to r, assist_to r),
      (deadline_extended_to r, extension_reason r, client_approval r, client_approval_at r,
       extended_by r, completed_date r))"

definition get_column :: "string \<Rightarrow> request \<Rightarrow> sqlval option" where
  "get_column k r =
     (if k = ''equipment_type'' then Some (equipment_type r)
      else if k = ''device_model'' then Some (device_model r)
      else if k = ''fault_type'' then Some (fault_type r)
      else if k = ''problem_description'' then Some (problem_description r)
      else if k = ''customer_name'' then Some (customer_name r)
      else if k = ''customer_phone'' then Some (customer_phone r)
      else if k = ''estimated_cost'' then Some (estimated_cost r)
      else if k = ''actual_cost'' then Some (actual_cost r)
      else if k = ''deadline'' then Some (deadline r)
      else None)"

subsection \<open>assign\_request and extend\_deadline\<close>

definition assign_request :: "database \<Rightarrow> int \<Rightarrow> int \<Rightarrow> bool \<times> database" where
  "assign_request db request_id specialist_id =
     (case find_request (cur db) request_id of
        None \<Rightarrow> (False, commit db)
      | Some _ \<Rightarrow>
          if \<not> user_exists (cur db) (Some specialist_id) then (False, db)
          else
            let t1 = update_requests_where_id request_id
                       (\<lambda>r. r\<lparr>assigned_to := Some specialist_id\<rparr>) (cur db)
            in (True, \<lparr>cur = t1, disk = t1\<rparr>))"

text \<open>
  extend\_deadline is one UPDATE of five columns and a commit. It looks at none of its
  arguments: the only failures are a request id that matches no row (rowcount 0) and an
  \<open>extended_by\<close> that the foreign key rejects.
\<close>

definition extend_deadline ::
  "database \<Rightarrow> string \<Rightarrow> int \<Rightarrow> string \<Rightarrow> string \<Rightarrow> string \<Rightarrow> int \<Rightarrow> bool \<times> database" where
  "extend_deadline db ts request_id new_deadline reason approval_text ext_by =
     (case find_request (cur db) request_id of
        None \<Rightarrow> (False, commit db)
      | Some _ \<Rightarrow>
          if \<not> user_exists (cur db) (Some ext_by) then (False, db)
          else
            let t1 = update_requests_where_id request_id
                       (\<lambda>r. r\<lparr>deadline_extended_to := Some new_deadline,
                              extension_reason := Some reason,
                              client_approval := Some approval_text,
                              client_approval_at := Some ts,
                              extended_by := Some ext_by\<rparr>) (cur db)
            in (True, \<lparr>cur = t1, disk = t1\<rparr>))"

definition extension_fields ::
  "request \<Rightarrow> string option \<times> string option \<times> string option \<times> string option \<times> int option" where
  "extension_fields r =
     (deadline_extended_to r, extension_reason r, client_approval r, client_approval_at r,
      extended_by r)"

subsection \<open>The session helpers and the guarded buttons of app.py\<close>

definition role_of :: "user option \<Rightarrow> string" where
  \<comment> \<open>\<open>role()\<close> on \<open>st.session_state.user\<close>\<close>
  "role_of su = (case su of None \<Rightarrow> [] | Some u \<Rightarrow> role u)"

definition user_id_of :: "user option \<Rightarrow> int" where
  \<comment> \<open>\<open>user_id()\<close>\<close>
  "user_id_of su = (case su of None \<Rightarrow> 0 | Some u \<Rightarrow> u_id u)"

definition is_admin :: "user option \<Rightarrow> bool" where
  "is_admin su = (role_of su = ''admin'')"


definition is_quality_manager :: "user option \<Rightarrow> bool" where
  "is_quality_manager su = (role_of su = ''quality_manager'')"

definition can_qm_actions :: "user option \<Rightarrow> bool" where
  "can_qm_actions su = (is_quality_manager su \<or> is_admin su)"



definition page_quality_control_extend ::
  "(string \<Rightarrow> string) \<Rightarrow> database \<Rightarrow> string \<Rightarrow> user option \<Rightarrow> bool \<Rightarrow> int \<Rightarrow> datetime
     \<Rightarrow> string \<Rightarrow> string \<Rightarrow> bool option \<times> database" where
  \<comment> \<open>the extend button of page\_quality\_control; \<open>strip\<close> is Python's str.strip;
      None: an error message was shown and no call was made\<close>
  "page_quality_control_extend strip db ts su approved rid new_dt reason approval =
     (if \<not> can_qm_actions su then (None, db)
      else if \<not> approved then (None, db)
      else if strip reason = [] then (None, db)
      else if strip approval = [] then (None, db)
      else (case extend_deadline db ts rid (strftime_full new_dt) (strip reason)
                   (strip approval) (user_id_of su) of
              (ok, db') \<Rightarrow> (Some ok, db')))"

subsection \<open>Help requests\<close>

definition find_user :: "tables \<Rightarrow> int \<Rightarrow> user option" where
  "find_user t i = find (\<lambda>u. u_id u = i) (users t)"

definition create_help_request ::
  "database \<Rightarrow> string \<Rightarrow> int \<Rightarrow> int \<Rightarrow> string \<Rightarrow> int option \<times> database" where
  "create_help_request db ts request_id req_by msg =
     (if find_request (cur db) request_id = None \<or> \<not> user_exists (cur db) (Some req_by)
      then (None, db)
      else
        let hid = next_id (map hr_id (help_requests (cur db)));
            t1 = (cur db)\<lparr>help_requests := help_requests (cur db) @
                   [\<lparr>hr_id = hid, hr_request_id = request_id, requested_by = req_by,
                     message = msg, hr_status = ''open'', hr_created_at = ts,
                     resolved_by = None, resolved_at = None, resolution_note = None\<rparr>]\<rparr>
        in (Some hid, \<lparr>cur = t1, disk = t1\<rparr>))"

record open_help_row =
  help_id :: int
  o_request_id :: int
  o_message :: string
  o_created_at :: string
  o_request_number :: string
  o_status :: string
  o_deadline :: sqlval
  o_deadline_extended_to :: "string option"
  o_assigned_to :: "int option"
  o_assigned_name :: "string option"
  o_assist_to :: "int option"
  o_assist_name :: "string option"
  o_requested_by :: int
  o_requested_by_name :: string

definition name_of :: "tables \<Rightarrow> int option \<Rightarrow> string option" where
  \<comment> \<open>\<open>LEFT JOIN users u ON u.id = ...\<close> giving \<open>u.full_name\<close>\<close>
  "name_of t ref =
     (case ref of None \<Rightarrow> None | Some i \<Rightarrow> map_option full_name (find_user t i))"

definition joined_help_row :: "tables \<Rightarrow> help_request \<Rightarrow> open_help_row option" where
  \<comment> \<open>the two inner joins: a help request without its request or its requester gives no row\<close>
  "joined_help_row t hr =
     (case find_request t (hr_request_id hr) of
        None \<Rightarrow> None
      | Some r \<Rightarrow>
         (case find_user t (requested_by hr) of
            None \<Rightarrow> None
          | Some u3 \<Rightarrow>
              Some \<lparr>help_id = hr_id hr, o_request_id = hr_request_id hr,
                    o_message = message hr, o_created_at = hr_created_at hr,
                    o_request_number = request_number r, o_status = status r,
                    o_deadline = deadline r, o_deadline_extended_to = deadline_extended_to r,
                    o_assigned_to = assigned_to r, o_assigned_name = name_of t (assigned_to r),
                    o_assist_to = assist_to r, o_assist_name = name_of t (assist_to r),
                    o_requested_by = requested_by hr, o_requested_by_name = full_name u3\<rparr>))"

definition order_by_created_at_desc :: "open_help_row list \<Rightarrow> open_help_row list" where
  \<comment> \<open>\<open>ORDER BY hr.created_at DESC\<close>, the texts compared bytewise; SQL leaves the order of
      rows with equal keys open, the model keeps the later row first\<close>
  "order_by_created_at_desc rows = rev (sort_key o_created_at rows)"

definition list_open_help_requests :: "tables \<Rightarrow> open_help_row list" where
  "list_open_help_requests t =
     order_by_created_at_desc
       (List.map_filter (joined_help_row t)
          (filter (\<lambda>hr. hr_status hr = ''open'') (help_requests t)))"

definition resolve_help_request ::
  "database \<Rightarrow> string \<Rightarrow> int \<Rightarrow> int \<Rightarrow> string \<Rightarrow> bool \<times> database" where
  "resolve_help_request db ts hid res_by note =
     (if hid \<notin> set (map hr_id (help_requests (cur db))) then (False, commit db)
      else if \<not> user_exists (cur db) (Some res_by) then (False, db)
      else
        let t1 = (cur db)\<lparr>help_requests :=
                   map (\<lambda>hr. if hr_id hr = hid
                             then hr\<lparr>hr_status := ''resolved'', resolved_by := Some res_by,
                                     resolved_at := Some ts, resolution_note := Some note\<rparr>
                             else hr) (help_requests (cur db))\<rparr>
        in (True, \<lparr>cur = t1, disk = t1\<rparr>))"

definition help_refs_ok :: "tables \<Rightarrow> bool" where
  \<comment> \<open>the foreign keys of help\_requests.request\_id and help\_requests.requested\_by\<close>
  "help_refs_ok t =
     (\<forall>hr \<in> set (help_requests t).
        hr_request_id hr \<in> set (map r_id (requests t))
        \<and> requested_by hr \<in> set (map u_id (users t)))"

definition open_help_requests :: "tables \<Rightarrow> help_request list" where
  "open_help_requests t = filter (\<lambda>hr. hr_status hr = ''open'') (help_requests t)"

subsection \<open>authenticate\_user\<close>

definition authenticate_user ::
  "(string \<Rightarrow> string) \<Rightarrow> tables \<Rightarrow> string \<Rightarrow> string \<Rightarrow> user option" where
  \<comment> \<open>\<open>sha256\<close> is \<open>_sha256\<close>, the hex digest of hashlib\<close>
  "authenticate_user sha256 t uname pw =
     (let hp = sha256 pw
      in find (\<lambda>u. username u = uname \<and> password u = hp \<and> is_active u) (users t))"

subsection \<open>deadline\_state\<close>











subsection \<open>The risk state as the specification words it\<close>






subsection \<open>The seeded database and example inputs\<close>

definition admin_user :: user where
  "admin_user = \<lparr>u_id = 1, username = ''admin'',
     password = ''240be518fabd2724ddb6f04eeb1da5967448d7e831c08c8fa822809f74c720a9'',
     full_name = ''Administrator'', role = ''admin'', is_active = True\<rparr>"

definition ivanov_user :: user where
  "ivanov_user = \<lparr>u_id = 2, username = ''ivanov'',
     password = ''92984524c562dcc97f4939ba3c903d3e7aa880e3cf1060557de8175b2dab53e8'',
     full_name = ''Ivanov'', role = ''specialist'', is_active = True\<rparr>"

definition qmanager_user :: user where
  "qmanager_user = \<lparr>u_id = 3, username = ''qmanager'',
     password = ''ed3f121b8653d764667c89b0fe66136d3af7c4ffc9178bc157f4c31201fdfd46'',
     full_name = ''Quality manager'', role = ''quality_manager'', is_active = True\<rparr>"

definition seeded_users :: "user list" where
  \<comment> \<open>the three users of add\_default\_data, their passwords the SHA-256 hex digests of
      admin123, spec123 and qm123, their full names shortened to ASCII\<close>
  "seeded_users = [admin_user, ivanov_user, qmanager_user]"

definition example_sha256 :: "string \<Rightarrow> string" where
  \<comment> \<open>SHA-256 on the three seeded passwords; any other input is given a text that is no digest\<close>
  "example_sha256 pw =
     (if pw = ''admin123''
      then ''240be518fabd2724ddb6f04eeb1da5967448d7e831c08c8fa822809f74c720a9''
      else if pw = ''spec123''
      then ''92984524c562dcc97f4939ba3c903d3e7aa880e3cf1060557de8175b2dab53e8''
      else if pw = ''qm123''
      then ''ed3f121b8653d764667c89b0fe66136d3af7c4ffc9178bc157f4c31201fdfd46''
      else ''?'')"

definition fresh_tables :: tables where
  "fresh_tables = \<lparr>users = seeded_users, requests = [], status_history = [], help_requests = []\<rparr>"

definition fresh_db :: database where
  \<comment> \<open>the connection right after \<open>Database()\<close> on a new file\<close>
  "fresh_db = \<lparr>cur = fresh_tables, disk = fresh_tables\<rparr>"

definition example_now :: datetime where
  "example_now = \<lparr>year = 2024, month = 2, day = 27, hour = 10, minute = 5, second = 9,
     microsecond = 0\<rparr>"


definition example_request :: request where
  \<comment> \<open>the row add\_request makes of example\_data in the fresh database\<close>
  "example_request =
     new_request_row 1 ''REQ202402270001'' ''2024-02-27 07:05:09''
       (Text ''Chiller'', Text ''Midea X'', Text ''Noise'', Text ''Loud'', Text ''Petrov'',
        Text ''89990000000'') 1000 ''2024-03-01 10:05:09''"

definition example_history :: status_history_entry where
  "example_history = \<lparr>h_id = 1, h_request_id = 1, old_status = None, new_status = status_open,
     changed_by = None, changed_at = ''2024-02-27 07:05:09''\<rparr>"

definition one_request_tables :: tables where
  "one_request_tables = fresh_tables\<lparr>requests := [example_request],
     status_history := [example_history]\<rparr>"

definition one_request_db :: database where
  "one_request_db = \<lparr>cur = one_request_tables, disk = one_request_tables\<rparr>"

definition status_flips :: "(datetime \<times> string \<times> int \<times> string \<times> int option) list" where
  \<comment> \<open>complete, reopen, complete again\<close>
  "status_flips =
     [(example_now, ''2024-02-27 07:06:00'', 1, status_completed, Some 2),
      (example_now, ''2024-02-27 07:07:00'', 1, status_open, Some 2),
      (example_now, ''2024-02-27 07:08:00'', 1, status_completed, Some 1)]"

definition deactivated_tables :: tables where
  \<comment> \<open>the seeded users with ivanov's active flag cleared\<close>
  "deactivated_tables =
     fresh_tables\<lparr>users := [admin_user, ivanov_user\<lparr>is_active := False\<rparr>, qmanager_user]\<rparr>"





definition failed_status_call :: "bool \<times> database" where
  \<comment> \<open>\<open>update_request_status(1, "completed", 999)\<close> on the one-request database, which has
      no user 999\<close>
  "failed_status_call =
     update_request_status one_request_db example_now ''2024-02-27 07:06:00'' 1
       status_completed (Some 999)"

text \<open>
  An edit that carries two whitelisted keys and two keys outside the whitelist, and the
  database after it.
\<close>

definition example_update :: "string \<rightharpoonup> pyval" where
  "example_update = [''customer_phone'' \<mapsto> PStr ''89991111111'', ''actual_cost'' \<mapsto> PFloat 1500,
     ''status'' \<mapsto> PStr ''done'', ''completed_date'' \<mapsto> PStr ''2024-01-01 00:00:00'']"

definition edited_tables :: tables where
  "edited_tables = one_request_tables\<lparr>requests :=
     [example_request\<lparr>customer_phone := Text ''89991111111'', actual_cost := Real 1500\<rparr>]\<rparr>"

definition edited_db :: database where
  "edited_db = \<lparr>cur = edited_tables, disk = edited_tables\<rparr>"

text \<open>
  The one-request database after ivanov has completed request 1.
\<close>

definition completed_history :: status_history_entry where
  "completed_history = \<lparr>h_id = 2, h_request_id = 1, old_status = Some status_open,
     new_status = status_completed, changed_by = Some 2, changed_at = ''2024-02-27 07:06:00''\<rparr>"

definition completed_tables :: tables where
  "completed_tables = one_request_tables\<lparr>
     requests := [example_request\<lparr>status := status_completed,
                    completed_date := Some ''2024-02-27 10:05:09''\<rparr>],
     status_history := [example_history, completed_history]\<rparr>"

definition completed_db :: database where
  \<comment> \<open>the one-request database after ivanov has completed request 1\<close>
  "completed_db = \<lparr>cur = completed_tables, disk = completed_tables\<rparr>"


text \<open>
  Two help requests of ivanov on request 1, and the database after the quality manager
  has resolved the first of them.
\<close>

definition first_help :: help_request where
  "first_help = \<lparr>hr_id = 1, hr_request_id = 1, requested_by = 2, message = ''no spare part'',
     hr_status = ''open'', hr_created_at = ''2024-02-27 08:00:00'', resolved_by = None,
     resolved_at = None, resolution_note = None\<rparr>"

definition second_help :: help_request where
  "second_help = \<lparr>hr_id = 2, hr_request_id = 1, requested_by = 2, message = ''still stuck'',
     hr_status = ''open'', hr_created_at = ''2024-02-27 08:30:00'', resolved_by = None,
     resolved_at = None, resolution_note = None\<rparr>"

definition one_help_db :: database where
  "one_help_db = \<lparr>cur = one_request_tables\<lparr>help_requests := [first_help]\<rparr>,
                   disk = one_request_tables\<lparr>help_requests := [first_help]\<rparr>\<rparr>"

definition two_help_db :: database where
  "two_help_db = \<lparr>cur = one_request_tables\<lparr>help_requests := [first_help, second_help]\<rparr>,
                   disk = one_request_tables\<lparr>help_requests := [first_help, second_help]\<rparr>\<rparr>"

definition first_resolved_db :: database where
  "first_resolved_db =
     \<lparr>cur = one_request_tables\<lparr>help_requests :=
              [first_help\<lparr>hr_status := ''resolved'', resolved_by := Some 3,
                 resolved_at := Some ''2024-02-27 09:00:00'', resolution_note := Some ''part sent''\<rparr>,
               second_help]\<rparr>,
      disk = one_request_tables\<lparr>help_requests :=
              [first_help\<lparr>hr_status := ''resolved'', resolved_by := Some 3,
                 resolved_at := Some ''2024-02-27 09:00:00'', resolution_note := Some ''part sent''\<rparr>,
               second_help]\<rparr>\<rparr>"

section \<open>Properties\<close>

subsection \<open>Evaluation and list lemmas\<close>

lemma dec_small: "n < 10 \<Longrightarrow> dec n = [digit_char n]"
  by (simp add: dec.simps)

lemma dec_large: "10 \<le> n \<Longrightarrow> dec n = dec (n div 10) @ [digit_char (n mod 10)]"
  by (subst dec.simps) simp

lemmas text_eval = dec_small dec_large digit_char_def zpad_def

lemma find_map_same_key:
  assumes "\<And>r. key (f r) = key r"
  shows "find (\<lambda>r. key r = i) (map (\<lambda>r. if key r = i then f r else r) xs)
         = map_option f (find (\<lambda>r. key r = i) xs)"
  using assms by (induction xs) auto

lemma find_request_update:
  assumes "\<And>r. r_id (f r) = r_id r"
  shows "find_request (update_requests_where_id i f t) i = map_option f (find_request t i)"
  using find_map_same_key [of r_id f i "requests t"] assms
  by (simp add: find_request_def update_requests_where_id_def)

lemma user_exists_update_requests:
  "user_exists (update_requests_where_id i f t) a = user_exists t a"
  by (cases a) (simp_all add: user_exists_def update_requests_where_id_def)

lemmas example_eval =
  one_request_db_def one_request_tables_def fresh_db_def fresh_tables_def seeded_users_def
  admin_user_def ivanov_user_def qmanager_user_def
  example_request_def example_history_def new_request_row_def example_now_def
  status_open_def status_completed_def status_in_repair_def

subsection \<open>update\_request\_status: the completion timestamp\<close>

lemma update_request_status_cases:
  assumes "update_request_status db now ts i s u = (ok, db')"
  shows "db' = db
    \<or> requests (cur db') = map (\<lambda>r. if r_id r = i
           then r\<lparr>status := s, completed_date :=
                     (if s = status_completed then Some (strftime_full now) else None)\<rparr>
           else r) (requests (cur db))"
  using assms
  by (auto simp: update_request_status_def Let_def update_requests_where_id_def
           split: option.splits if_splits)

lemma update_request_status_consistent:
  assumes "completed_date_consistent (cur db)"
  shows "completed_date_consistent (cur (snd (update_request_status db now ts i s u)))"
proof -
  obtain ok db' where res: "update_request_status db now ts i s u = (ok, db')"
    by (cases "update_request_status db now ts i s u")
  let ?g = "\<lambda>r. if r_id r = i
           then r\<lparr>status := s, completed_date :=
                     (if s = status_completed then Some (strftime_full now) else None)\<rparr>
           else r"
  from update_request_status_cases [OF res]
  consider "db' = db" | "requests (cur db') = map ?g (requests (cur db))"
    by blast
  then have "completed_date_consistent (cur db')"
  proof cases
    case 1
    with assms show ?thesis by simp
  next
    case 2
    show ?thesis
      unfolding completed_date_consistent_def 2
    proof
      fix r' assume "r' \<in> set (map ?g (requests (cur db)))"
      then obtain r where r: "r \<in> set (requests (cur db))" and r': "r' = ?g r"
        by auto
      from assms r have "(completed_date r \<noteq> None) = (status r = status_completed)"
        by (simp add: completed_date_consistent_def)
      then show "(completed_date r' \<noteq> None) = (status r' = status_completed)"
        by (simp add: r')
    qed
  qed
  then show ?thesis by (simp add: res)
qed

lemma run_status_calls_consistent:
  "completed_date_consistent (cur db)
   \<Longrightarrow> completed_date_consistent (cur (run_status_calls db calls))"
  unfolding run_status_calls_def
proof (induction calls arbitrary: db)
  case Nil
  then show ?case by simp
next
  case (Cons c calls)
  obtain now ts i s u where c: "c = (now, ts, i, s, u)" by (cases c)
  show ?case
    using Cons.IH [OF update_request_status_consistent [OF Cons.prems, of now ts i s u]]
    by (simp add: c)
qed

lemma update_request_status_effect:
  assumes "update_request_status db now ts i s u = (True, db')"
  shows "\<exists>r. find_request (cur db') i = Some r \<and> status r = s
           \<and> completed_date r
               = (if s = status_completed then Some (strftime_full now) else None)"
proof -
  from assms obtain row where row: "find_request (cur db) i = Some row"
    by (auto simp: update_request_status_def split: option.splits)
  let ?f = "\<lambda>r. r\<lparr>status := s, completed_date :=
                     (if s = status_completed then Some (strftime_full now) else None)\<rparr>"
  have "requests (cur db') = requests (update_requests_where_id i ?f (cur db))"
    using assms row
    by (auto simp: update_request_status_def Let_def update_requests_where_id_def
             split: if_splits)
  then have "find_request (cur db') i = find_request (update_requests_where_id i ?f (cur db)) i"
    by (simp add: find_request_def)
  also have "\<dots> = Some (?f row)"
    using find_request_update [of ?f i "cur db"] row by simp
  finally show ?thesis by auto
qed

lemma update_request_status_applies:
  assumes row: "find_request (cur db) i = Some r0"
    and actor: "u = None \<or> u = Some 0 \<or> user_exists (cur db) u"
  shows "\<exists>db' r. update_request_status db now ts i s u = (True, db')
           \<and> find_request (cur db') i = Some r \<and> status r = s
           \<and> completed_date r
               = (if s = status_completed then Some (strftime_full now) else None)
           \<and> disk db' = cur db'"
proof -
  let ?actor = "case u of None \<Rightarrow> None | Some v \<Rightarrow> if v = 0 then None else Some v"
  have a: "user_exists (cur db) ?actor"
    using actor by (auto simp: user_exists_def split: option.splits if_splits)
  obtain ok db' where res: "update_request_status db now ts i s u = (ok, db')"
    by (cases "update_request_status db now ts i s u")
  with row a have ok: "ok" and dk: "disk db' = cur db'"
    by (auto simp: update_request_status_def Let_def user_exists_update_requests)
  from update_request_status_effect [of db now ts i s u db'] res ok dk
  show ?thesis by auto
qed

text \<open>
  Claim C1. In every row of the requests table completed\_date is non-NULL exactly when
  the status is "completed", and update\_request\_status keeps it so. If this holds in a
  database, it holds after any sequence of update\_request\_status calls, hence in every
  state observed along repeated status flips. A call for an existing request by no user,
  user 0 or an existing user succeeds, is committed, and leaves the request with the new
  status and with completed\_date equal to the formatted current time if the new status
  is "completed" and NULL otherwise, whatever the row held before: a transition to any
  other status clears a completion timestamp that was set. Every successful call has
  this effect.
\<close>

theorem completed_date_iff_status_completed:
  "(completed_date_consistent (cur db) \<longrightarrow>
      completed_date_consistent (cur (run_status_calls db calls)))
   \<and> (find_request (cur db) i \<noteq> None \<and> (u = None \<or> u = Some 0 \<or> user_exists (cur db) u) \<longrightarrow>
        (\<exists>db' r. update_request_status db now ts i s u = (True, db')
           \<and> find_request (cur db') i = Some r \<and> status r = s
           \<and> completed_date r
               = (if s = status_completed then Some (strftime_full now) else None)
           \<and> disk db' = cur db'))
   \<and> (update_request_status db now ts i s u = (True, db') \<longrightarrow>
        (\<exists>r. find_request (cur db') i = Some r \<and> status r = s
           \<and> completed_date r
               = (if s = status_completed then Some (strftime_full now) else None)))"
  using run_status_calls_consistent [of db calls] update_request_status_applies [of db i _ u now ts s]
    update_request_status_effect [of db now ts i s u db']
  by blast

lemma one_request_db_consistent: "completed_date_consistent (cur one_request_db)"
  by (simp add: completed_date_consistent_def example_eval)

lemma complete_example_eval:
  "update_request_status one_request_db example_now ''2024-02-27 07:06:00'' 1
     status_completed (Some 2) = (True, completed_db)"
  by (simp add: update_request_status_def Let_def find_request_def
        update_requests_where_id_def user_exists_def next_id_def strftime_full_def
        completed_db_def completed_tables_def completed_history_def text_eval example_eval)

lemma reopen_example_eval:
  "update_request_status completed_db example_now ''2024-02-27 07:07:00'' 1
     status_open (Some 2)
   = (True,
      \<lparr>cur = completed_tables\<lparr>requests := [example_request],
               status_history := [example_history, completed_history,
                 \<lparr>h_id = 3, h_request_id = 1, old_status = Some status_completed,
                  new_status = status_open, changed_by = Some 2,
                  changed_at = ''2024-02-27 07:07:00''\<rparr>]\<rparr>,
        disk = completed_tables\<lparr>requests := [example_request],
               status_history := [example_history, completed_history,
                 \<lparr>h_id = 3, h_request_id = 1, old_status = Some status_completed,
                  new_status = status_open, changed_by = Some 2,
                  changed_at = ''2024-02-27 07:07:00''\<rparr>]\<rparr>\<rparr>)"
  by (simp add: update_request_status_def Let_def find_request_def
        update_requests_where_id_def user_exists_def next_id_def strftime_full_def
        completed_db_def completed_tables_def completed_history_def text_eval example_eval)

theorem completed_date_iff_status_completed_witness:
  "completed_date_consistent (cur one_request_db)
   \<and> completed_date_consistent (cur (run_status_calls one_request_db status_flips))
   \<and> find_request (cur one_request_db) 1 \<noteq> None \<and> user_exists (cur one_request_db) (Some 2)
   \<and> (\<exists>r. find_request (cur completed_db) 1 = Some r \<and> status r = status_completed
          \<and> completed_date r = Some ''2024-02-27 10:05:09'')
   \<and> find_request (cur completed_db) 1 \<noteq> None \<and> user_exists (cur completed_db) (Some 2)
   \<and> (\<exists>db' r. update_request_status completed_db example_now ''2024-02-27 07:07:00'' 1
                  status_open (Some 2) = (True, db')
          \<and> find_request (cur db') 1 = Some r \<and> status r = status_open
          \<and> completed_date r = None \<and> disk db' = cur db')
   \<and> (\<exists>db' r. update_request_status completed_db example_now ''2024-02-27 07:07:00'' 1
                  status_in_repair None = (True, db')
          \<and> find_request (cur db') 1 = Some r \<and> status r = status_in_repair
          \<and> completed_date r = None \<and> disk db' = cur db')"
proof -
  have fmt: "strftime_full example_now = ''2024-02-27 10:05:09''"
    by (simp add: strftime_full_def example_now_def text_eval)
  have a: "find_request (cur one_request_db) 1 \<noteq> None"
    by (simp add: find_request_def example_eval)
  have b: "user_exists (cur one_request_db) (Some 2)"
    by (simp add: user_exists_def example_eval)
  have c: "find_request (cur completed_db) 1 \<noteq> None"
    by (simp add: find_request_def completed_db_def completed_tables_def example_eval)
  have d: "user_exists (cur completed_db) (Some 2)"
    by (simp add: user_exists_def completed_db_def completed_tables_def example_eval)
  have cn: "status_open \<noteq> status_completed" "status_in_repair \<noteq> status_completed"
    by (simp_all add: status_open_def status_completed_def status_in_repair_def)
  from completed_date_iff_status_completed
         [of one_request_db status_flips 1 "Some 2" example_now "''2024-02-27 07:06:00''"
             status_completed completed_db]
       one_request_db_consistent complete_example_eval fmt
  have first: "completed_date_consistent (cur (run_status_calls one_request_db status_flips))"
    and second: "\<exists>r. find_request (cur completed_db) 1 = Some r \<and> status r = status_completed
          \<and> completed_date r = Some ''2024-02-27 10:05:09''"
    by simp_all
  from completed_date_iff_status_completed
         [of completed_db "[]" 1 "Some 2" example_now "''2024-02-27 07:07:00''" status_open]
       c d cn
  have third: "\<exists>db' r. update_request_status completed_db example_now ''2024-02-27 07:07:00'' 1
                  status_open (Some 2) = (True, db')
          \<and> find_request (cur db') 1 = Some r \<and> status r = status_open
          \<and> completed_date r = None \<and> disk db' = cur db'"
    by simp
  from completed_date_iff_status_completed
         [of completed_db "[]" 1 None example_now "''2024-02-27 07:07:00''" status_in_repair]
       c cn
  have fourth: "\<exists>db' r. update_request_status completed_db example_now ''2024-02-27 07:07:00'' 1
                  status_in_repair None = (True, db')
          \<and> find_request (cur db') 1 = Some r \<and> status r = status_in_repair
          \<and> completed_date r = None \<and> disk db' = cur db'"
    by simp
  from one_request_db_consistent first a b second c d third fourth show ?thesis
    by (intro conjI) assumption+
qed

subsection \<open>authenticate\_user\<close>

text \<open>
  Claim C10. authenticate\_user returns a user record only if that record is in the users
  table, its username is the one supplied, its stored password equals the SHA-256 hex
  digest of the supplied password and its active flag is set; and it returns None exactly
  when no such user exists, so also for a deactivated user with the right password.
\<close>

theorem authenticate_user_some_iff:
  "(authenticate_user sha256 t uname pw = Some u \<longrightarrow>
      u \<in> set (users t) \<and> username u = uname \<and> password u = sha256 pw \<and> is_active u)
   \<and> ((authenticate_user sha256 t uname pw = None) =
        (\<not> (\<exists>u \<in> set (users t).
               username u = uname \<and> password u = sha256 pw \<and> is_active u)))"
  by (auto simp: authenticate_user_def Let_def find_Some_iff find_None_iff)

theorem authenticate_user_some_iff_witness:
  "authenticate_user example_sha256 fresh_tables ''admin'' ''admin123'' = Some admin_user
   \<and> admin_user \<in> set (users fresh_tables) \<and> is_active admin_user
   \<and> authenticate_user example_sha256 fresh_tables ''admin'' ''spec123'' = None
   \<and> authenticate_user example_sha256 deactivated_tables ''ivanov'' ''spec123'' = None"
proof -
  have a: "authenticate_user example_sha256 fresh_tables ''admin'' ''admin123''
           = Some admin_user"
    by (simp add: authenticate_user_def example_sha256_def example_eval)
  have b: "authenticate_user example_sha256 fresh_tables ''admin'' ''spec123'' = None"
    by (simp add: authenticate_user_def example_sha256_def example_eval)
  have c: "authenticate_user example_sha256 deactivated_tables ''ivanov'' ''spec123'' = None"
    by (simp add: authenticate_user_def example_sha256_def deactivated_tables_def
          example_eval)
  from authenticate_user_some_iff
         [of example_sha256 fresh_tables "''admin''" "''admin123''" admin_user] a b c
  show ?thesis by simp
qed

subsection \<open>deadline\_state\<close>










subsection \<open>extend\_deadline: no validation of its own\<close>

lemma extend_deadline_succeeds:
  assumes "find_request (cur db) rid = Some r0" and "user_exists (cur db) (Some ub)"
  shows "\<exists>db' r. extend_deadline db ts rid nd reason appr ub = (True, db')
           \<and> find_request (cur db') rid = Some r
           \<and> extension_fields r = (Some nd, Some reason, Some appr, Some ts, Some ub)
           \<and> disk db' = cur db'"
proof -
  let ?f = "\<lambda>r. r\<lparr>deadline_extended_to := Some nd, extension_reason := Some reason,
                   client_approval := Some appr, client_approval_at := Some ts,
                   extended_by := Some ub\<rparr>"
  let ?t = "update_requests_where_id rid ?f (cur db)"
  have e: "extend_deadline db ts rid nd reason appr ub = (True, \<lparr>cur = ?t, disk = ?t\<rparr>)"
    using assms by (simp add: extend_deadline_def Let_def)
  have "find_request ?t rid = Some (?f r0)"
    using find_request_update [of ?f rid "cur db"] assms(1) by simp
  with e show ?thesis by (simp add: extension_fields_def)
qed

lemma extend_empty_eval:
  "extend_deadline one_request_db ''2024-02-27 08:00:00'' 1 ''2024-03-05 18:00:00'' [] [] 3
   = (True,
      \<lparr>cur = one_request_tables\<lparr>requests := [example_request\<lparr>
                deadline_extended_to := Some ''2024-03-05 18:00:00'',
                extension_reason := Some [], client_approval := Some [],
                client_approval_at := Some ''2024-02-27 08:00:00'',
                extended_by := Some 3\<rparr>]\<rparr>,
       disk = one_request_tables\<lparr>requests := [example_request\<lparr>
                deadline_extended_to := Some ''2024-03-05 18:00:00'',
                extension_reason := Some [], client_approval := Some [],
                client_approval_at := Some ''2024-02-27 08:00:00'',
                extended_by := Some 3\<rparr>]\<rparr>\<rparr>)"
  by (simp add: extend_deadline_def Let_def find_request_def update_requests_where_id_def
        user_exists_def example_eval)

text \<open>
  Claim C3 as stated fails: called with an empty reason and an empty approval text on the
  one request of the example database, by the quality manager, extend\_deadline returns
  True and rewrites all five extension fields.
\<close>

theorem extend_deadline_empty_counterexample:
  "fst (extend_deadline one_request_db ''2024-02-27 08:00:00'' 1 ''2024-03-05 18:00:00'' [] [] 3)
   \<and> map extension_fields (requests (cur one_request_db)) = [(None, None, None, None, None)]
   \<and> map extension_fields (requests (cur (snd (extend_deadline one_request_db
         ''2024-02-27 08:00:00'' 1 ''2024-03-05 18:00:00'' [] [] 3))))
       = [(Some ''2024-03-05 18:00:00'', Some [], Some [], Some ''2024-02-27 08:00:00'',
           Some 3)]"
  by (simp add: extend_empty_eval) (simp add: extension_fields_def example_eval)

text \<open>
  Claim C3, amended. extend\_deadline does not look at the reason or the approval text:
  for an existing request and an existing extending user it returns True and sets the five
  extension fields to the new deadline, the reason, the approval text, the current
  timestamp and the user, whatever the texts are. Empty input is turned away by its
  caller, the extend button of page\_quality\_control: when the reason or the approval
  text is empty after strip(), extend\_deadline is not called and the database is left as
  it was.
\<close>

theorem extend_deadline_validated_by_caller:
  "(find_request (cur db) rid \<noteq> None \<and> user_exists (cur db) (Some ub) \<longrightarrow>
      (\<exists>db' r. extend_deadline db ts rid nd reason appr ub = (True, db')
          \<and> find_request (cur db') rid = Some r
          \<and> extension_fields r = (Some nd, Some reason, Some appr, Some ts, Some ub)))
   \<and> (strip reason = [] \<or> strip appr = [] \<longrightarrow>
        page_quality_control_extend strip db ts su approved rid new_dt reason appr
          = (None, db))"
proof -
  have "page_quality_control_extend strip db ts su approved rid new_dt reason appr = (None, db)"
    if "strip reason = [] \<or> strip appr = []"
    using that by (auto simp: page_quality_control_extend_def)
  moreover have "\<exists>db' r. extend_deadline db ts rid nd reason appr ub = (True, db')
          \<and> find_request (cur db') rid = Some r
          \<and> extension_fields r = (Some nd, Some reason, Some appr, Some ts, Some ub)"
    if "find_request (cur db) rid \<noteq> None" "user_exists (cur db) (Some ub)"
    using that extend_deadline_succeeds [of db rid _ ub ts nd reason appr] by blast
  ultimately show ?thesis by blast
qed

theorem extend_deadline_validated_by_caller_witness:
  "find_request (cur one_request_db) 1 \<noteq> None \<and> user_exists (cur one_request_db) (Some 3)
   \<and> (\<exists>db' r. extend_deadline one_request_db ''2024-02-27 08:00:00'' 1
                  ''2024-03-05 18:00:00'' ''part on order'' ''phone call'' 3 = (True, db')
          \<and> find_request (cur db') 1 = Some r
          \<and> extension_fields r = (Some ''2024-03-05 18:00:00'', Some ''part on order'',
               Some ''phone call'', Some ''2024-02-27 08:00:00'', Some 3))
   \<and> page_quality_control_extend (\<lambda>s. s) one_request_db ''2024-02-27 08:00:00''
        (Some qmanager_user) True 1 example_now [] ''phone call'' = (None, one_request_db)"
proof -
  have a: "find_request (cur one_request_db) 1 \<noteq> None"
    by (simp add: find_request_def example_eval)
  have b: "user_exists (cur one_request_db) (Some 3)"
    by (simp add: user_exists_def example_eval)
  from extend_deadline_validated_by_caller
         [where db = one_request_db and rid = 1 and ub = 3 and ts = "''2024-02-27 08:00:00''"
            and nd = "''2024-03-05 18:00:00''" and reason = "''part on order''"
            and appr = "''phone call''" and strip = "\<lambda>s. s"] a b
  have first: "\<exists>db' r. extend_deadline one_request_db ''2024-02-27 08:00:00'' 1
                  ''2024-03-05 18:00:00'' ''part on order'' ''phone call'' 3 = (True, db')
          \<and> find_request (cur db') 1 = Some r
          \<and> extension_fields r = (Some ''2024-03-05 18:00:00'', Some ''part on order'',
               Some ''phone call'', Some ''2024-02-27 08:00:00'', Some 3)"
    by blast
  from extend_deadline_validated_by_caller
         [where strip = "\<lambda>s. s" and reason = "[]" and appr = "''phone call''"
            and db = one_request_db and ts = "''2024-02-27 08:00:00''"
            and su = "Some qmanager_user" and approved = True and rid = 1
            and new_dt = example_now]
  have second: "page_quality_control_extend (\<lambda>s. s) one_request_db ''2024-02-27 08:00:00''
        (Some qmanager_user) True 1 example_now [] ''phone call'' = (None, one_request_db)"
    by simp
  from a b first second show ?thesis by blast
qed

subsection \<open>update\_request\_status: no role check of its own\<close>






subsection \<open>update\_request\_status: the history row and the transaction\<close>

lemma update_request_status_success:
  assumes "update_request_status db now ts rid s who = (True, db')"
  shows "\<exists>r0. find_request (cur db) rid = Some r0
          \<and> status_history (cur db') = status_history (cur db) @
               [\<lparr>h_id = next_id (map h_id (status_history (cur db))), h_request_id = rid,
                 old_status = Some (status r0), new_status = s,
                 changed_by = (case who of None \<Rightarrow> None
                               | Some u \<Rightarrow> if u = 0 then None else Some u),
                 changed_at = ts\<rparr>]
          \<and> disk db' = cur db'"
  using assms
  by (auto simp: update_request_status_def Let_def update_requests_where_id_def
           split: option.splits if_splits)

lemma update_request_status_fails_iff:
  "(\<not> fst (update_request_status db now ts rid s who))
   = (find_request (cur db) rid = None
      \<or> \<not> user_exists (cur db)
            (case who of None \<Rightarrow> None | Some u \<Rightarrow> if u = 0 then None else Some u))"
  by (auto simp: update_request_status_def Let_def user_exists_update_requests
           split: option.splits)

lemma update_request_status_unknown_id:
  "find_request (cur db) rid = None \<Longrightarrow> update_request_status db now ts rid s who = (False, db)"
  by (simp add: update_request_status_def)

lemma unknown_actor_eval:
  "failed_status_call
   = (False,
      \<lparr>cur = one_request_tables\<lparr>
         requests := [example_request\<lparr>status := status_completed,
                        completed_date := Some ''2024-02-27 10:05:09''\<rparr>]\<rparr>,
       disk = one_request_tables\<rparr>)"
  by (simp add: failed_status_call_def update_request_status_def Let_def find_request_def
        update_requests_where_id_def user_exists_def next_id_def strftime_full_def
        text_eval example_eval)

text \<open>
  Claim C4 holds on the successful path (exactly one history row with the old status, the
  new status and the actor is appended and committed with the status update) and for the
  return value (False exactly for an unknown request id or a rejected write), but not for
  the failing path: when the insert of the history row is rejected, here by the foreign
  key of changed\_by for the user id 999, the UPDATE has already been executed and the
  handler returns False without a rollback. The connection then reads the new status
  with no history row for it, and the commit of the next successful method, here
  assign\_request, makes exactly that durable.
\<close>

theorem update_request_status_partial_write:
  "\<not> fst failed_status_call
   \<and> map status (requests (cur one_request_db)) = [status_open]
   \<and> map status (requests (cur (snd failed_status_call))) = [status_completed]
   \<and> status_history (cur (snd failed_status_call)) = [example_history]
   \<and> fst (assign_request (snd failed_status_call) 1 2)
   \<and> map status (requests (disk (snd (assign_request (snd failed_status_call) 1 2))))
       = [status_completed]
   \<and> status_history (disk (snd (assign_request (snd failed_status_call) 1 2)))
       = [example_history]"
  unfolding unknown_actor_eval
  by (simp add: assign_request_def Let_def find_request_def update_requests_where_id_def
        user_exists_def example_eval)

subsection \<open>update\_request: the whitelist\<close>

lemma protected_set_column: "protected_fields (set_column k v r) = protected_fields r"
  by (simp add: set_column_def protected_fields_def)

lemma protected_set_columns: "protected_fields (set_columns kvs r) = protected_fields r"
  unfolding set_columns_def
  by (induction kvs arbitrary: r) (auto simp: protected_set_column)

lemma get_column_set_column:
  "get_column k (set_column k' v r) = (if k' = k \<and> k \<in> set allowed then Some v else get_column k r)"
  by (simp add: get_column_def set_column_def allowed_def)

lemma get_column_set_columns:
  "distinct (map fst kvs) \<Longrightarrow> k \<in> set allowed \<Longrightarrow>
   get_column k (set_columns kvs r) = (case map_of kvs k of Some v \<Rightarrow> Some v | None \<Rightarrow> get_column k r)"
  unfolding set_columns_def
proof (induction kvs arbitrary: r)
  case Nil
  then show ?case by simp
next
  case (Cons kv kvs)
  obtain k' v where kv: "kv = (k', v)" by (cases kv)
  from Cons.prems have d: "distinct (map fst kvs)" and nk: "k' \<notin> fst ` set kvs"
    by (auto simp: kv)
  show ?case
  proof (cases "k' = k")
    case True
    with nk have "map_of kvs k = None" by (simp add: map_of_eq_None_iff)
    with Cons.IH [OF d Cons.prems(2), of "set_column k' v r"] True Cons.prems(2)
    show ?thesis by (simp add: kv get_column_set_column)
  next
    case False
    with Cons.IH [OF d Cons.prems(2), of "set_column k' v r"]
    show ?thesis by (simp add: kv get_column_set_column split: option.splits)
  qed
qed

lemma get_column_set_columns_absent:
  "k \<notin> fst ` set kvs \<Longrightarrow> get_column k (set_columns kvs r) = get_column k r"
  unfolding set_columns_def
  by (induction kvs arbitrary: r) (auto simp: get_column_set_column)

lemma those_Some_map: "those xs = Some ys \<Longrightarrow> xs = map Some ys"
  by (induction xs arbitrary: ys) (auto split: option.splits)

lemma distinct_allowed: "distinct allowed"
  by (simp add: allowed_def)

lemma update_request_cases:
  assumes "update_request db rid ud = (ok, db')"
  shows "db' = db \<or>
    (\<exists>values. those (map (\<lambda>k. Option.bind (ud k) bind) (filter (\<lambda>k. ud k \<noteq> None) allowed)) = Some values
       \<and> ok = (find_request (cur db) rid \<noteq> None)
       \<and> cur db' = update_requests_where_id rid
            (set_columns (zip (filter (\<lambda>k. ud k \<noteq> None) allowed) values)) (cur db)
       \<and> disk db' = cur db')"
  using assms
  by (auto simp: update_request_def Let_def split: if_splits option.splits)

lemma map_protected_update:
  "(\<And>r. protected_fields (f r) = protected_fields r) \<Longrightarrow>
   map protected_fields (map (\<lambda>r. if r_id r = i then f r else r) rs) = map protected_fields rs"
  by (induction rs) auto

lemma filter_others_update:
  "(\<And>r. r_id (f r) = r_id r) \<Longrightarrow>
   filter (\<lambda>r. r_id r \<noteq> i) (map (\<lambda>r. if r_id r = i then f r else r) rs)
   = filter (\<lambda>r. r_id r \<noteq> i) rs"
  by (induction rs) auto

lemma r_id_set_columns: "r_id (set_columns kvs r) = r_id r"
  using protected_set_columns [of kvs r] by (simp add: protected_fields_def)

lemma update_request_frame:
  assumes "update_request db rid ud = (ok, db')"
  shows "users (cur db') = users (cur db)"
    and "status_history (cur db') = status_history (cur db)"
    and "help_requests (cur db') = help_requests (cur db)"
    and "map protected_fields (requests (cur db')) = map protected_fields (requests (cur db))"
    and "filter (\<lambda>r. r_id r \<noteq> rid) (requests (cur db')) = filter (\<lambda>r. r_id r \<noteq> rid) (requests (cur db))"
proof -
  from update_request_cases [OF assms]
  consider "db' = db"
    | vs where "cur db' = update_requests_where_id rid
            (set_columns (zip (filter (\<lambda>k. ud k \<noteq> None) allowed) vs)) (cur db)"
    by blast
  note cases = this
  show "users (cur db') = users (cur db)"
    by (rule cases) (simp_all add: update_requests_where_id_def)
  show "status_history (cur db') = status_history (cur db)"
    by (rule cases) (simp_all add: update_requests_where_id_def)
  show "help_requests (cur db') = help_requests (cur db)"
    by (rule cases) (simp_all add: update_requests_where_id_def)
  show "map protected_fields (requests (cur db')) = map protected_fields (requests (cur db))"
    by (rule cases)
      (simp_all add: update_requests_where_id_def map_protected_update protected_set_columns
         del: map_map)
  show "filter (\<lambda>r. r_id r \<noteq> rid) (requests (cur db')) = filter (\<lambda>r. r_id r \<noteq> rid) (requests (cur db))"
    by (rule cases)
      (simp_all add: update_requests_where_id_def filter_others_update r_id_set_columns
         del: filter_map)
qed

lemma update_request_absent_column:
  assumes "update_request db rid ud = (ok, db')" and "ud k = None"
  shows "map (get_column k) (requests (cur db')) = map (get_column k) (requests (cur db))"
proof -
  from update_request_cases [OF assms(1)]
  consider "db' = db"
    | vs where "cur db' = update_requests_where_id rid
            (set_columns (zip (filter (\<lambda>k. ud k \<noteq> None) allowed) vs)) (cur db)"
    by blast
  then show ?thesis
  proof cases
    case 1
    then show ?thesis by simp
  next
    case 2
    have "k \<notin> fst ` set (zip (filter (\<lambda>k. ud k \<noteq> None) allowed) vs)"
      using assms(2) by (auto dest!: set_zip_leftD)
    then show ?thesis
      by (simp add: 2 update_requests_where_id_def get_column_set_columns_absent)
  qed
qed

lemma update_request_written:
  assumes "update_request db rid ud = (True, db')" and "find_request (cur db') rid = Some r'"
    and "k \<in> set allowed" and "ud k = Some v"
  shows "bind v = get_column k r'"
proof -
  let ?fields = "filter (\<lambda>k. ud k \<noteq> None) allowed"
  have kf: "k \<in> set ?fields" using assms(3,4) by simp
  then have ne: "?fields \<noteq> []" by (metis empty_iff empty_set)
  from assms(1) ne obtain "values" where
    th: "those (map (\<lambda>k. Option.bind (ud k) bind) ?fields) = Some values"
    and c: "cur db' = update_requests_where_id rid (set_columns (zip ?fields values)) (cur db)"
    by (auto simp: update_request_def Let_def split: if_splits option.splits)
  from those_Some_map [OF th] have m: "map (\<lambda>k. Option.bind (ud k) bind) ?fields = map Some values" .
  then have len: "length ?fields = length values" by (metis length_map)
  have df: "distinct ?fields" using distinct_allowed by simp
  from kf obtain j where j: "j < length ?fields" "?fields ! j = k"
    by (metis in_set_conv_nth)
  from m j have bv: "bind v = Some (values ! j)"
    using assms(4) by (metis (no_types, lifting) Option.bind.simps(2) len nth_map)
  have mo: "map_of (zip ?fields values) k = Some (values ! j)"
    using df j len by (metis map_of_zip_nth)
  have rid_pres: "\<And>r. r_id (set_columns (zip ?fields values) r) = r_id r"
    using protected_set_columns [of "zip ?fields values"] by (simp add: protected_fields_def)
  from assms(2) c obtain r0 where r': "r' = set_columns (zip ?fields values) r0"
    using find_request_update [of "set_columns (zip ?fields values)" rid "cur db"] rid_pres
    by (cases "find_request (cur db) rid") auto
  have "distinct (map fst (zip ?fields values))" using df len by simp
  from get_column_set_columns [OF this assms(3), of r0] mo
  show ?thesis by (simp add: r' bv)
qed

lemma update_request_cong:
  assumes "\<And>k. k \<in> set allowed \<Longrightarrow> ud k = ud' k"
  shows "update_request db rid ud = update_request db rid ud'"
proof -
  have f: "filter (\<lambda>k. ud k \<noteq> None) allowed = filter (\<lambda>k. ud' k \<noteq> None) allowed"
    by (rule filter_cong) (auto simp: assms)
  have m: "map (\<lambda>k. Option.bind (ud k) bind) (filter (\<lambda>k. ud' k \<noteq> None) allowed)
        = map (\<lambda>k. Option.bind (ud' k) bind) (filter (\<lambda>k. ud' k \<noteq> None) allowed)"
    by (rule map_cong) (auto simp: assms)
  show ?thesis unfolding update_request_def Let_def f m by (rule refl)
qed

lemma update_request_restrict:
  "update_request db rid (ud |` set allowed) = update_request db rid ud"
  by (rule update_request_cong) simp

lemma example_update_eval:
  "update_request one_request_db 1 example_update = (True, edited_db)"
  by (simp add: update_request_def Let_def allowed_def example_update_def bind_def
        set_columns_def set_column_def find_request_def update_requests_where_id_def
        edited_db_def edited_tables_def example_eval)

text \<open>
  Claim C9: update\_request writes only the whitelisted columns. Whatever the edit
  carries and whatever the call returns, the columns outside the whitelist (id, number,
  creation date, status, assignee, assistant, the extension fields and completed\_date)
  keep their values in every row, the status history, the users and the help requests are
  untouched, the rows of other requests are untouched, and a whitelisted column whose key
  is absent from the edit keeps its value. When the call returns True, each whitelisted
  key of the edit has been written to the target row. Keys outside the whitelist are
  ignored: the call behaves as on the edit restricted to the whitelist.
\<close>

theorem update_request_changes_only_whitelisted:
  "update_request db rid ud = (ok, db') \<longrightarrow>
     map protected_fields (requests (cur db')) = map protected_fields (requests (cur db))
   \<and> map status (requests (cur db')) = map status (requests (cur db))
   \<and> map completed_date (requests (cur db')) = map completed_date (requests (cur db))
   \<and> status_history (cur db') = status_history (cur db)
   \<and> users (cur db') = users (cur db) \<and> help_requests (cur db') = help_requests (cur db)
   \<and> filter (\<lambda>r. r_id r \<noteq> rid) (requests (cur db')) = filter (\<lambda>r. r_id r \<noteq> rid) (requests (cur db))
   \<and> (\<forall>k. ud k = None \<longrightarrow>
         map (get_column k) (requests (cur db')) = map (get_column k) (requests (cur db)))
   \<and> (ok \<longrightarrow> (\<forall>r' k v. find_request (cur db') rid = Some r' \<and> k \<in> set allowed \<and> ud k = Some v
          \<longrightarrow> bind v = get_column k r'))
   \<and> update_request db rid (ud |` set allowed) = (ok, db')"
proof
  assume a: "update_request db rid ud = (ok, db')"
  have p: "map protected_fields (requests (cur db')) = map protected_fields (requests (cur db))"
    by (rule update_request_frame(4) [OF a])
  have s: "map status (requests (cur db')) = map status (requests (cur db))"
    using arg_cong [OF p, of "map (\<lambda>p. fst (snd (snd (snd (fst p)))))"]
    by (simp add: protected_fields_def comp_def)
  have c: "map completed_date (requests (cur db')) = map completed_date (requests (cur db))"
    using arg_cong [OF p, of "map (\<lambda>p. snd (snd (snd (snd (snd (snd p))))))"]
    by (simp add: protected_fields_def comp_def)
  have w: "\<forall>r' k v. find_request (cur db') rid = Some r' \<and> k \<in> set allowed \<and> ud k = Some v
          \<longrightarrow> bind v = get_column k r'" if ok
  proof -
    from that a have "update_request db rid ud = (True, db')" by simp
    then show ?thesis using update_request_written by blast
  qed
  show "map protected_fields (requests (cur db')) = map protected_fields (requests (cur db))
   \<and> map status (requests (cur db')) = map status (requests (cur db))
   \<and> map completed_date (requests (cur db')) = map completed_date (requests (cur db))
   \<and> status_history (cur db') = status_history (cur db)
   \<and> users (cur db') = users (cur db) \<and> help_requests (cur db') = help_requests (cur db)
   \<and> filter (\<lambda>r. r_id r \<noteq> rid) (requests (cur db')) = filter (\<lambda>r. r_id r \<noteq> rid) (requests (cur db))
   \<and> (\<forall>k. ud k = None \<longrightarrow>
         map (get_column k) (requests (cur db')) = map (get_column k) (requests (cur db)))
   \<and> (ok \<longrightarrow> (\<forall>r' k v. find_request (cur db') rid = Some r' \<and> k \<in> set allowed \<and> ud k = Some v
          \<longrightarrow> bind v = get_column k r'))
   \<and> update_request db rid (ud |` set allowed) = (ok, db')"
    using p s c update_request_frame(1,2,3,5) [OF a] update_request_absent_column [OF a] w
      update_request_restrict [of db rid ud] a
    by simp
qed

theorem update_request_changes_only_whitelisted_witness:
  "update_request one_request_db 1 example_update = (True, edited_db)
   \<and> map status (requests (cur edited_db)) = map status (requests (cur one_request_db))
   \<and> map completed_date (requests (cur edited_db))
       = map completed_date (requests (cur one_request_db))
   \<and> status_history (cur edited_db) = status_history (cur one_request_db)
   \<and> update_request one_request_db 1 (example_update |` set allowed) = (True, edited_db)"
  using update_request_changes_only_whitelisted
          [of one_request_db 1 example_update True edited_db]
        example_update_eval
  by simp

subsection \<open>add\_request: the initial state of a request\<close>

lemma foldr_max_ge: "x \<in> set ids \<Longrightarrow> x \<le> foldr max ids (0::int)"
  by (induction ids) auto

lemma next_id_fresh: "next_id ids \<notin> set ids"
  using foldr_max_ge [of "next_id ids" ids] by (auto simp: next_id_def)

lemma find_append_new:
  "\<forall>x \<in> set xs. \<not> P x \<Longrightarrow> P y \<Longrightarrow> find P (xs @ [y]) = Some y"
  by (induction xs) auto

lemma add_request_cases:
  assumes "add_request fl db now_n now_d ts_r ts_h data days = (res, db')"
  shows "(res = None \<and> db' = db) \<or>
    (\<exists>dl cost six. plus_days now_d days = Some dl
       \<and> res = Some (next_id (map r_id (requests (cur db))))
       \<and> generate_request_number (cur db) now_n \<notin> set (map request_number (requests (cur db)))
       \<and> requests (cur db') = requests (cur db) @
            [new_request_row (next_id (map r_id (requests (cur db))))
               (generate_request_number (cur db) now_n) ts_r six cost (strftime_full dl)]
       \<and> status_history (cur db') = status_history (cur db) @
            [\<lparr>h_id = next_id (map h_id (status_history (cur db))),
              h_request_id = next_id (map r_id (requests (cur db))), old_status = None,
              new_status = status_open, changed_by = None, changed_at = ts_h\<rparr>]
       \<and> users (cur db') = users (cur db) \<and> help_requests (cur db') = help_requests (cur db)
       \<and> disk db' = cur db')"
  using assms
  by (auto simp: add_request_def Let_def split: option.splits if_splits) blast+



text \<open>
  What holds of every creation: whenever add\_request with the default number of days
  returns an id, the new row is appended under a fresh id with the status open, no
  extended deadline and no completion timestamp; one history row (old status null, new
  status open, no actor) is appended, it is the only history row of the new request, and
  both rows are committed together. When add\_request returns None, nothing has been
  written. The deadline is the text of the reading of \<open>datetime.now()\<close> plus three days.
\<close>

lemma add_request_effect:
  assumes run: "add_request fl db now_n now_d ts_r ts_h data default_deadline_days = (res, db')"
    and refs: "history_refs_ok (cur db)"
  shows "case res of
           None \<Rightarrow> db' = db
         | Some rid \<Rightarrow>
            (\<exists>dl r h. plus_days now_d 3 = Some dl
               \<and> requests (cur db') = requests (cur db) @ [r]
               \<and> rid \<notin> set (map r_id (requests (cur db)))
               \<and> r_id r = rid \<and> find_request (cur db') rid = Some r
               \<and> status r = status_open
               \<and> deadline r = Text (strftime_full dl)
               \<and> deadline_extended_to r = None \<and> completed_date r = None
               \<and> status_history (cur db') = status_history (cur db) @ [h]
               \<and> request_history (cur db') rid = [h]
               \<and> old_status h = None \<and> new_status h = status_open \<and> changed_by h = None
               \<and> disk db' = cur db')"
proof (cases res)
  case None
  with add_request_cases [OF run] show ?thesis by auto
next
  case (Some rid)
  let ?rid = "next_id (map r_id (requests (cur db)))"
  from add_request_cases [OF run] Some obtain dl cost six where
    dl: "plus_days now_d default_deadline_days = Some dl"
    and rid: "rid = ?rid"
    and rq: "requests (cur db') = requests (cur db) @
            [new_request_row ?rid (generate_request_number (cur db) now_n) ts_r six cost
               (strftime_full dl)]"
    and hs: "status_history (cur db') = status_history (cur db) @
            [\<lparr>h_id = next_id (map h_id (status_history (cur db))),
              h_request_id = ?rid, old_status = None,
              new_status = status_open, changed_by = None, changed_at = ts_h\<rparr>]"
    and dk: "disk db' = cur db'"
    by auto
  let ?r = "new_request_row ?rid (generate_request_number (cur db) now_n) ts_r six cost
               (strftime_full dl)"
  let ?h = "\<lparr>h_id = next_id (map h_id (status_history (cur db))),
              h_request_id = ?rid, old_status = None,
              new_status = status_open, changed_by = None, changed_at = ts_h\<rparr>"
  have fresh: "?rid \<notin> set (map r_id (requests (cur db)))" by (rule next_id_fresh)
  have rr: "r_id ?r = ?rid" "status ?r = status_open" "deadline ?r = Text (strftime_full dl)"
    "deadline_extended_to ?r = None" "completed_date ?r = None"
    by (cases six; simp add: new_request_row_def)+
  have fr: "find_request (cur db') ?rid = Some ?r"
    unfolding find_request_def rq
    by (rule find_append_new) (use fresh rr(1) in \<open>auto simp: image_iff\<close>)
  have old: "filter (\<lambda>h. h_request_id h = ?rid) (status_history (cur db)) = []"
  proof -
    have "\<forall>h \<in> set (status_history (cur db)). h_request_id h \<noteq> ?rid"
      using refs fresh unfolding history_refs_ok_def by metis
    then show ?thesis by (simp add: filter_empty_conv)
  qed
  have rh: "request_history (cur db') ?rid = [?h]"
    by (simp add: request_history_def hs old)
  have "plus_days now_d 3 = Some dl" using dl by (simp add: default_deadline_days_def)
  with rq fresh rr fr hs rh dk show ?thesis
    unfolding Some rid option.case
    by (intro exI [of _ dl] exI [of _ ?r] exI [of _ ?h]) simp
qed


subsection \<open>Help requests: creation, listing and resolution\<close>

lemma joined_help_row_frame:
  assumes u: "users t' = users t" and r: "requests t' = requests t"
  shows "joined_help_row t' hr = joined_help_row t hr"
  unfolding joined_help_row_def find_request_def find_user_def name_of_def u r by (rule refl)

lemma joined_help_row_fields:
  "joined_help_row t hr = Some row \<Longrightarrow>
     help_id row = hr_id hr \<and> o_created_at row = hr_created_at hr
     \<and> o_request_id row = hr_request_id hr \<and> o_message row = message hr"
  by (auto simp: joined_help_row_def split: option.splits)

lemma joined_help_row_Some:
  assumes "help_refs_ok t" and "hr \<in> set (help_requests t)"
  shows "joined_help_row t hr \<noteq> None"
proof -
  from assms have "hr_request_id hr \<in> set (map r_id (requests t))"
    and "requested_by hr \<in> set (map u_id (users t))"
    by (auto simp: help_refs_ok_def)
  then have "find_request t (hr_request_id hr) \<noteq> None" and "find_user t (requested_by hr) \<noteq> None"
    by (auto simp: find_request_def find_user_def find_None_iff)
  then show ?thesis by (auto simp: joined_help_row_def)
qed

lemma map_filter_total:
  assumes "\<forall>x \<in> set xs. f x \<noteq> None" and "\<And>x y. f x = Some y \<Longrightarrow> g y = h x"
  shows "map g (List.map_filter f xs) = map h xs"
  using assms(1)
  by (induction xs) (auto simp: List.map_filter_simps assms(2) split: option.splits)

lemma listed_ids_unsorted:
  assumes "help_refs_ok t"
  shows "map help_id (List.map_filter (joined_help_row t) (open_help_requests t))
         = map hr_id (open_help_requests t)"
proof (rule map_filter_total)
  show "\<forall>x\<in>set (open_help_requests t). joined_help_row t x \<noteq> None"
    using joined_help_row_Some [OF assms] by (simp add: open_help_requests_def)
  show "help_id y = hr_id x" if "joined_help_row t x = Some y" for x y
    using joined_help_row_fields [OF that] by simp
qed

lemma list_open_alt:
  "list_open_help_requests t
   = rev (sort_key o_created_at (List.map_filter (joined_help_row t) (open_help_requests t)))"
  by (simp add: list_open_help_requests_def order_by_created_at_desc_def open_help_requests_def)

lemma list_open_all_and_only:
  assumes "help_refs_ok t"
  shows "set (map help_id (list_open_help_requests t)) = set (map hr_id (open_help_requests t))"
    and "length (list_open_help_requests t) = length (open_help_requests t)"
proof -
  let ?L = "List.map_filter (joined_help_row t) (open_help_requests t)"
  have "set (map help_id (list_open_help_requests t)) = set (map help_id ?L)"
    by (simp add: list_open_alt)
  then show "set (map help_id (list_open_help_requests t)) = set (map hr_id (open_help_requests t))"
    by (simp only: listed_ids_unsorted [OF assms])
  have "length (list_open_help_requests t) = length (map help_id ?L)"
    by (simp add: list_open_alt)
  then show "length (list_open_help_requests t) = length (open_help_requests t)"
    by (simp only: listed_ids_unsorted [OF assms] length_map)
qed

lemma list_open_newest_first:
  "sorted (rev (map o_created_at (list_open_help_requests t)))"
  by (simp add: list_open_alt rev_map)

lemma list_open_rows:
  "row \<in> set (list_open_help_requests t) \<Longrightarrow>
   \<exists>hr \<in> set (open_help_requests t). joined_help_row t hr = Some row"
  by (auto simp: list_open_alt List.map_filter_def)

lemma map_filter_filter_ids:
  "(\<And>x y. f x = Some y \<Longrightarrow> Q y = P x) \<Longrightarrow>
   List.map_filter f (filter P xs) = filter Q (List.map_filter f xs)"
  by (induction xs) (auto simp: List.map_filter_simps split: option.splits)

lemma resolve_cases:
  assumes "resolve_help_request db ts hid who note = (ok, db')"
  shows "(\<not> ok \<and> cur db' = cur db) \<or>
     (ok \<and> hid \<in> set (map hr_id (help_requests (cur db)))
        \<and> cur db' = (cur db)\<lparr>help_requests :=
                   map (\<lambda>hr. if hr_id hr = hid
                             then hr\<lparr>hr_status := ''resolved'', resolved_by := Some who,
                                     resolved_at := Some ts, resolution_note := Some note\<rparr>
                             else hr) (help_requests (cur db))\<rparr>
        \<and> disk db' = cur db')"
  using assms
  by (auto simp: resolve_help_request_def Let_def commit_def split: if_splits)

lemma open_after_resolve:
  "filter (\<lambda>hr. hr_status hr = ''open'')
     (map (\<lambda>hr. if hr_id hr = hid
                then hr\<lparr>hr_status := ''resolved'', resolved_by := a, resolved_at := b,
                        resolution_note := c\<rparr>
                else hr) hrs)
   = filter (\<lambda>hr. hr_id hr \<noteq> hid) (filter (\<lambda>hr. hr_status hr = ''open'') hrs)"
  by (induction hrs) auto

lemma others_after_resolve:
  "filter (\<lambda>hr. hr_id hr \<noteq> hid)
     (map (\<lambda>hr. if hr_id hr = hid
                then hr\<lparr>hr_status := ''resolved'', resolved_by := a, resolved_at := b,
                        resolution_note := c\<rparr>
                else hr) hrs)
   = filter (\<lambda>hr. hr_id hr \<noteq> hid) hrs"
  by (induction hrs) auto

lemma resolve_list_open:
  assumes "resolve_help_request db ts hid who note = (True, db')"
  shows "list_open_help_requests (cur db')
         = filter (\<lambda>row. help_id row \<noteq> hid) (list_open_help_requests (cur db))"
proof -
  from resolve_cases [OF assms] have
    c: "cur db' = (cur db)\<lparr>help_requests :=
                   map (\<lambda>hr. if hr_id hr = hid
                             then hr\<lparr>hr_status := ''resolved'', resolved_by := Some who,
                                     resolved_at := Some ts, resolution_note := Some note\<rparr>
                             else hr) (help_requests (cur db))\<rparr>"
    by simp
  have j: "joined_help_row (cur db') = joined_help_row (cur db)"
    by (rule ext, rule joined_help_row_frame) (simp_all add: c)
  have o: "open_help_requests (cur db')
           = filter (\<lambda>hr. hr_id hr \<noteq> hid) (open_help_requests (cur db))"
    by (simp add: open_help_requests_def c open_after_resolve)
  have m: "List.map_filter (joined_help_row (cur db))
             (filter (\<lambda>hr. hr_id hr \<noteq> hid) (open_help_requests (cur db)))
           = filter (\<lambda>row. help_id row \<noteq> hid)
               (List.map_filter (joined_help_row (cur db)) (open_help_requests (cur db)))"
    by (rule map_filter_filter_ids) (simp add: joined_help_row_fields)
  show ?thesis
    by (simp only: list_open_alt j o m) (simp only: rev_filter [symmetric] filter_sort)
qed

lemma help_refs_ok_frame:
  "users t' = users t \<Longrightarrow> requests t' = requests t \<Longrightarrow>
   map (\<lambda>hr. (hr_request_id hr, requested_by hr)) (help_requests t')
     = map (\<lambda>hr. (hr_request_id hr, requested_by hr)) (help_requests t) \<Longrightarrow>
   help_refs_ok t' = help_refs_ok t"
proof -
  assume u: "users t' = users t" and r: "requests t' = requests t"
    and m: "map (\<lambda>hr. (hr_request_id hr, requested_by hr)) (help_requests t')
     = map (\<lambda>hr. (hr_request_id hr, requested_by hr)) (help_requests t)"
  have "help_refs_ok s = (\<forall>p \<in> set (map (\<lambda>hr. (hr_request_id hr, requested_by hr)) (help_requests s)).
      fst p \<in> set (map r_id (requests s)) \<and> snd p \<in> set (map u_id (users s)))" for s
    by (auto simp: help_refs_ok_def)
  then show ?thesis by (simp only: u r m)
qed

lemma resolve_refs_ok:
  assumes "resolve_help_request db ts hid who note = (ok, db')" and "help_refs_ok (cur db)"
  shows "help_refs_ok (cur db')"
proof -
  from resolve_cases [OF assms(1)] consider "cur db' = cur db"
    | "cur db' = (cur db)\<lparr>help_requests :=
                   map (\<lambda>hr. if hr_id hr = hid
                             then hr\<lparr>hr_status := ''resolved'', resolved_by := Some who,
                                     resolved_at := Some ts, resolution_note := Some note\<rparr>
                             else hr) (help_requests (cur db))\<rparr>"
    by blast
  then show ?thesis
  proof cases
    case 1
    then show ?thesis using assms(2) by simp
  next
    case 2
    have "help_refs_ok (cur db') = help_refs_ok (cur db)"
      by (rule help_refs_ok_frame) (auto simp: 2)
    then show ?thesis using assms(2) by simp
  qed
qed

lemma create_help_request_cases:
  assumes "create_help_request db ts rid who msg = (res, db')"
  shows "(res = None \<and> db' = db
            \<and> (find_request (cur db) rid = None \<or> \<not> user_exists (cur db) (Some who)))
     \<or> (find_request (cur db) rid \<noteq> None \<and> user_exists (cur db) (Some who)
         \<and> res = Some (next_id (map hr_id (help_requests (cur db))))
         \<and> cur db' = (cur db)\<lparr>help_requests := help_requests (cur db) @
                   [\<lparr>hr_id = next_id (map hr_id (help_requests (cur db))),
                     hr_request_id = rid, requested_by = who,
                     message = msg, hr_status = ''open'', hr_created_at = ts,
                     resolved_by = None, resolved_at = None, resolution_note = None\<rparr>]\<rparr>
         \<and> disk db' = cur db')"
  using assms
  by (auto simp: create_help_request_def Let_def split: if_splits)


lemma create_help_request_applies:
  assumes "find_request (cur db) rid \<noteq> None" and "user_exists (cur db) (Some who)"
    and refs: "help_refs_ok (cur db)"
  shows "\<exists>hid db1 new. create_help_request db ts rid who msg = (Some hid, db1)
          \<and> help_requests (cur db1) = help_requests (cur db) @ [new]
          \<and> users (cur db1) = users (cur db) \<and> requests (cur db1) = requests (cur db)
          \<and> status_history (cur db1) = status_history (cur db)
          \<and> hr_id new = hid \<and> hid \<notin> set (map hr_id (help_requests (cur db)))
          \<and> hr_request_id new = rid \<and> requested_by new = who \<and> message new = msg
          \<and> hr_status new = ''open'' \<and> disk db1 = cur db1 \<and> help_refs_ok (cur db1)"
proof -
  let ?hid = "next_id (map hr_id (help_requests (cur db)))"
  let ?new = "\<lparr>hr_id = ?hid, hr_request_id = rid, requested_by = who,
                message = msg, hr_status = ''open'', hr_created_at = ts,
                resolved_by = None, resolved_at = None, resolution_note = None\<rparr>"
  let ?t1 = "(cur db)\<lparr>help_requests := help_requests (cur db) @ [?new]\<rparr>"
  have res: "create_help_request db ts rid who msg = (Some ?hid, \<lparr>cur = ?t1, disk = ?t1\<rparr>)"
    using assms(1,2) by (simp add: create_help_request_def Let_def)
  have fresh: "?hid \<notin> set (map hr_id (help_requests (cur db)))" by (rule next_id_fresh)
  from assms(1) have "rid \<in> set (map r_id (requests (cur db)))"
    by (auto simp: find_request_def find_None_iff)
  with assms(2) refs have "help_refs_ok ?t1"
    by (auto simp: help_refs_ok_def user_exists_def)
  with res fresh show ?thesis
    by (intro exI [of _ ?hid] exI [of _ "\<lparr>cur = ?t1, disk = ?t1\<rparr>"] exI [of _ ?new]) simp
qed


lemma ids_after_resolve:
  "map hr_id (map (\<lambda>hr. if hr_id hr = hid
                then hr\<lparr>hr_status := ''resolved'', resolved_by := a, resolved_at := b,
                        resolution_note := c\<rparr>
                else hr) hrs) = map hr_id hrs"
  by (induction hrs) simp_all

lemma target_after_resolve:
  "\<forall>hr \<in> set (map (\<lambda>hr. if hr_id hr = hid
                then hr\<lparr>hr_status := ''resolved'', resolved_by := a, resolved_at := b,
                        resolution_note := c\<rparr>
                else hr) hrs). hr_id hr = hid \<longrightarrow>
   hr_status hr = ''resolved'' \<and> resolved_by hr = a \<and> resolved_at hr = b
     \<and> resolution_note hr = c"
proof
  let ?g = "\<lambda>hr. if hr_id hr = hid
                then hr\<lparr>hr_status := ''resolved'', resolved_by := a, resolved_at := b,
                        resolution_note := c\<rparr>
                else hr"
  fix hr assume "hr \<in> set (map ?g hrs)"
  then obtain x where x: "hr = ?g x" by (auto simp only: set_map image_iff)
  have "hr_id (?g x) = hid \<longrightarrow>
   hr_status (?g x) = ''resolved'' \<and> resolved_by (?g x) = a \<and> resolved_at (?g x) = b
     \<and> resolution_note (?g x) = c"
    by simp
  then show "hr_id hr = hid \<longrightarrow>
   hr_status hr = ''resolved'' \<and> resolved_by hr = a \<and> resolved_at hr = b
     \<and> resolution_note hr = c"
    unfolding x .
qed

lemma resolve_help_request_applies:
  assumes tgt: "target \<in> set (map hr_id (help_requests (cur db)))"
    and usr: "user_exists (cur db) (Some resolver)"
    and refs: "help_refs_ok (cur db)"
  shows "\<exists>db2. resolve_help_request db ts target resolver remark = (True, db2)
          \<and> users (cur db2) = users (cur db) \<and> requests (cur db2) = requests (cur db)
          \<and> status_history (cur db2) = status_history (cur db)
          \<and> map hr_id (help_requests (cur db2)) = map hr_id (help_requests (cur db))
          \<and> filter (\<lambda>hr. hr_id hr \<noteq> target) (help_requests (cur db2))
              = filter (\<lambda>hr. hr_id hr \<noteq> target) (help_requests (cur db))
          \<and> (\<forall>hr \<in> set (help_requests (cur db2)). hr_id hr = target \<longrightarrow>
                hr_status hr = ''resolved'' \<and> resolved_by hr = Some resolver
                \<and> resolved_at hr = Some ts \<and> resolution_note hr = Some remark)
          \<and> open_help_requests (cur db2)
              = filter (\<lambda>hr. hr_id hr \<noteq> target) (open_help_requests (cur db))
          \<and> list_open_help_requests (cur db2)
              = filter (\<lambda>row. help_id row \<noteq> target) (list_open_help_requests (cur db))
          \<and> disk db2 = cur db2 \<and> help_refs_ok (cur db2)"
proof -
  let ?g = "\<lambda>hr. if hr_id hr = target
                   then hr\<lparr>hr_status := ''resolved'', resolved_by := Some resolver,
                           resolved_at := Some ts, resolution_note := Some remark\<rparr>
                   else hr"
  let ?t1 = "(cur db)\<lparr>help_requests := map ?g (help_requests (cur db))\<rparr>"
  let ?db2 = "\<lparr>cur = ?t1, disk = ?t1\<rparr>"
  have res: "resolve_help_request db ts target resolver remark = (True, ?db2)"
    using tgt usr by (simp add: resolve_help_request_def Let_def)
  have hs: "help_requests (cur ?db2) = map ?g (help_requests (cur db))"
    by simp
  have f1: "users (cur ?db2) = users (cur db)" by simp
  have f2: "requests (cur ?db2) = requests (cur db)" by simp
  have f3: "status_history (cur ?db2) = status_history (cur db)" by simp
  have f4: "map hr_id (help_requests (cur ?db2)) = map hr_id (help_requests (cur db))"
    unfolding hs by (rule ids_after_resolve)
  have f5: "filter (\<lambda>hr. hr_id hr \<noteq> target) (help_requests (cur ?db2))
              = filter (\<lambda>hr. hr_id hr \<noteq> target) (help_requests (cur db))"
    unfolding hs by (rule others_after_resolve)
  have f6: "\<forall>hr \<in> set (help_requests (cur ?db2)). hr_id hr = target \<longrightarrow>
                hr_status hr = ''resolved'' \<and> resolved_by hr = Some resolver
                \<and> resolved_at hr = Some ts \<and> resolution_note hr = Some remark"
    unfolding hs by (rule target_after_resolve)
  have f7: "open_help_requests (cur ?db2)
              = filter (\<lambda>hr. hr_id hr \<noteq> target) (open_help_requests (cur db))"
    unfolding open_help_requests_def hs by (rule open_after_resolve)
  have f8: "list_open_help_requests (cur ?db2)
              = filter (\<lambda>row. help_id row \<noteq> target) (list_open_help_requests (cur db))"
    by (rule resolve_list_open [OF res])
  have f9: "disk ?db2 = cur ?db2" by simp
  have f10: "help_refs_ok (cur ?db2)" by (rule resolve_refs_ok [OF res refs])
  show ?thesis
    by (rule exI [of _ ?db2]) (intro conjI res f1 f2 f3 f4 f5 f6 f7 f8 f9 f10)
qed


text \<open>
  Claim C8, in a database whose help requests reference existing requests and users.
  Creating a help request for an existing request by an existing user succeeds whatever
  help requests exist already, so several open ones can stand on the same request: the
  new one is appended with the status open under a fresh id. Resolving an existing help
  request by an existing user succeeds and changes only the targeted entry: users,
  requests and status history are unchanged, every other help request is unchanged, and
  the target gets the status resolved, the resolver, the resolution time and the note;
  afterwards the open help requests, and the list returned by
  list\_open\_help\_requests, are those of before without the target. The list holds
  all and only the open help requests (the same ids, as many rows, each row the join of
  an open help request) and is ordered by creation time, newest first.
\<close>

theorem resolve_help_request_only_target:
  assumes refs: "help_refs_ok (cur db)"
  shows
   "(find_request (cur db) rid \<noteq> None \<and> user_exists (cur db) (Some who) \<longrightarrow>
       (\<exists>hid db1 new. create_help_request db ts rid who msg = (Some hid, db1)
          \<and> help_requests (cur db1) = help_requests (cur db) @ [new]
          \<and> hr_id new = hid \<and> hid \<notin> set (map hr_id (help_requests (cur db)))
          \<and> hr_request_id new = rid \<and> hr_status new = ''open''
          \<and> help_refs_ok (cur db1)))
    \<and> (target \<in> set (map hr_id (help_requests (cur db)))
         \<and> user_exists (cur db) (Some resolver) \<longrightarrow>
       (\<exists>db2. resolve_help_request db ts' target resolver remark = (True, db2)
          \<and> users (cur db2) = users (cur db) \<and> requests (cur db2) = requests (cur db)
          \<and> status_history (cur db2) = status_history (cur db)
          \<and> map hr_id (help_requests (cur db2)) = map hr_id (help_requests (cur db))
          \<and> filter (\<lambda>hr. hr_id hr \<noteq> target) (help_requests (cur db2))
              = filter (\<lambda>hr. hr_id hr \<noteq> target) (help_requests (cur db))
          \<and> (\<forall>hr \<in> set (help_requests (cur db2)). hr_id hr = target \<longrightarrow>
                hr_status hr = ''resolved'' \<and> resolved_by hr = Some resolver
                \<and> resolved_at hr = Some ts' \<and> resolution_note hr = Some remark)
          \<and> open_help_requests (cur db2)
              = filter (\<lambda>hr. hr_id hr \<noteq> target) (open_help_requests (cur db))
          \<and> list_open_help_requests (cur db2)
              = filter (\<lambda>row. help_id row \<noteq> target) (list_open_help_requests (cur db))
          \<and> help_refs_ok (cur db2)))
    \<and> set (map help_id (list_open_help_requests (cur db)))
        = set (map hr_id (open_help_requests (cur db)))
    \<and> length (list_open_help_requests (cur db)) = length (open_help_requests (cur db))
    \<and> (\<forall>row \<in> set (list_open_help_requests (cur db)).
          \<exists>hr \<in> set (open_help_requests (cur db)). joined_help_row (cur db) hr = Some row)
    \<and> sorted (rev (map o_created_at (list_open_help_requests (cur db))))"
proof -
  have a: "\<exists>hid db1 new. create_help_request db ts rid who msg = (Some hid, db1)
          \<and> help_requests (cur db1) = help_requests (cur db) @ [new]
          \<and> hr_id new = hid \<and> hid \<notin> set (map hr_id (help_requests (cur db)))
          \<and> hr_request_id new = rid \<and> hr_status new = ''open''
          \<and> help_refs_ok (cur db1)"
    if "find_request (cur db) rid \<noteq> None" "user_exists (cur db) (Some who)"
    using create_help_request_applies [OF that refs, of ts msg] by blast
  have b: "\<exists>db2. resolve_help_request db ts' target resolver remark = (True, db2)
          \<and> users (cur db2) = users (cur db) \<and> requests (cur db2) = requests (cur db)
          \<and> status_history (cur db2) = status_history (cur db)
          \<and> map hr_id (help_requests (cur db2)) = map hr_id (help_requests (cur db))
          \<and> filter (\<lambda>hr. hr_id hr \<noteq> target) (help_requests (cur db2))
              = filter (\<lambda>hr. hr_id hr \<noteq> target) (help_requests (cur db))
          \<and> (\<forall>hr \<in> set (help_requests (cur db2)). hr_id hr = target \<longrightarrow>
                hr_status hr = ''resolved'' \<and> resolved_by hr = Some resolver
                \<and> resolved_at hr = Some ts' \<and> resolution_note hr = Some remark)
          \<and> open_help_requests (cur db2)
              = filter (\<lambda>hr. hr_id hr \<noteq> target) (open_help_requests (cur db))
          \<and> list_open_help_requests (cur db2)
              = filter (\<lambda>row. help_id row \<noteq> target) (list_open_help_requests (cur db))
          \<and> help_refs_ok (cur db2)"
    if "target \<in> set (map hr_id (help_requests (cur db)))" "user_exists (cur db) (Some resolver)"
    using resolve_help_request_applies [OF that refs, of ts' remark] by blast
  have c: "\<forall>row \<in> set (list_open_help_requests (cur db)).
          \<exists>hr \<in> set (open_help_requests (cur db)). joined_help_row (cur db) hr = Some row"
    using list_open_rows by blast
  note d = list_open_all_and_only [OF refs]
  note e = list_open_newest_first [of "cur db"]
  show ?thesis
  proof (intro conjI impI)
    assume "find_request (cur db) rid \<noteq> None \<and> user_exists (cur db) (Some who)"
    then show "\<exists>hid db1 new. create_help_request db ts rid who msg = (Some hid, db1)
          \<and> help_requests (cur db1) = help_requests (cur db) @ [new]
          \<and> hr_id new = hid \<and> hid \<notin> set (map hr_id (help_requests (cur db)))
          \<and> hr_request_id new = rid \<and> hr_status new = ''open''
          \<and> help_refs_ok (cur db1)"
      using a by simp
  next
    assume "target \<in> set (map hr_id (help_requests (cur db)))
         \<and> user_exists (cur db) (Some resolver)"
    then show "\<exists>db2. resolve_help_request db ts' target resolver remark = (True, db2)
          \<and> users (cur db2) = users (cur db) \<and> requests (cur db2) = requests (cur db)
          \<and> status_history (cur db2) = status_history (cur db)
          \<and> map hr_id (help_requests (cur db2)) = map hr_id (help_requests (cur db))
          \<and> filter (\<lambda>hr. hr_id hr \<noteq> target) (help_requests (cur db2))
              = filter (\<lambda>hr. hr_id hr \<noteq> target) (help_requests (cur db))
          \<and> (\<forall>hr \<in> set (help_requests (cur db2)). hr_id hr = target \<longrightarrow>
                hr_status hr = ''resolved'' \<and> resolved_by hr = Some resolver
                \<and> resolved_at hr = Some ts' \<and> resolution_note hr = Some remark)
          \<and> open_help_requests (cur db2)
              = filter (\<lambda>hr. hr_id hr \<noteq> target) (open_help_requests (cur db))
          \<and> list_open_help_requests (cur db2)
              = filter (\<lambda>row. help_id row \<noteq> target) (list_open_help_requests (cur db))
          \<and> help_refs_ok (cur db2)"
      using b by (elim conjE) (rule b)
  qed (rule d c e)+
qed


lemma help_text_order:
  "''2024-02-27 08:00:00'' \<le> ''2024-02-27 08:30:00''"
  "\<not> ''2024-02-27 08:30:00'' \<le> ''2024-02-27 08:00:00''"
  by (simp_all add: less_eq_char_def less_char_def)

lemma joined_first_help:
  "joined_help_row (cur two_help_db) first_help
   = Some \<lparr>help_id = 1, o_request_id = 1, o_message = ''no spare part'',
            o_created_at = ''2024-02-27 08:00:00'', o_request_number = ''REQ202402270001'',
            o_status = status_open, o_deadline = Text ''2024-03-01 10:05:09'',
            o_deadline_extended_to = None, o_assigned_to = None, o_assigned_name = None,
            o_assist_to = None, o_assist_name = None, o_requested_by = 2,
            o_requested_by_name = ''Ivanov''\<rparr>"
  by (simp add: joined_help_row_def find_request_def find_user_def name_of_def
        two_help_db_def first_help_def example_eval)

lemma joined_second_help:
  "joined_help_row (cur two_help_db) second_help
   = Some \<lparr>help_id = 2, o_request_id = 1, o_message = ''still stuck'',
            o_created_at = ''2024-02-27 08:30:00'', o_request_number = ''REQ202402270001'',
            o_status = status_open, o_deadline = Text ''2024-03-01 10:05:09'',
            o_deadline_extended_to = None, o_assigned_to = None, o_assigned_name = None,
            o_assist_to = None, o_assist_name = None, o_requested_by = 2,
            o_requested_by_name = ''Ivanov''\<rparr>"
  by (simp add: joined_help_row_def find_request_def find_user_def name_of_def
        two_help_db_def second_help_def example_eval)

lemma open_two:
  "filter (\<lambda>hr. hr_status hr = ''open'') (help_requests (cur two_help_db))
   = [first_help, second_help]"
  by (simp add: two_help_db_def first_help_def second_help_def)

lemma list_two_eval:
  "map help_id (list_open_help_requests (cur two_help_db)) = [2, 1]"
  unfolding list_open_help_requests_def order_by_created_at_desc_def open_two
  by (simp add: List.map_filter_simps joined_first_help joined_second_help help_text_order)

lemma create_second_eval:
  "create_help_request one_help_db ''2024-02-27 08:30:00'' 1 2 ''still stuck''
   = (Some 2, two_help_db)"
  by (simp add: create_help_request_def Let_def find_request_def user_exists_def next_id_def
        one_help_db_def two_help_db_def first_help_def second_help_def example_eval)

lemma create_first_eval:
  "create_help_request one_request_db ''2024-02-27 08:00:00'' 1 2 ''no spare part''
   = (Some 1, one_help_db)"
  by (simp add: create_help_request_def Let_def find_request_def user_exists_def next_id_def
        one_help_db_def first_help_def example_eval)

lemma resolve_first_eval:
  "resolve_help_request two_help_db ''2024-02-27 09:00:00'' 1 3 ''part sent''
   = (True, first_resolved_db)"
  by (simp add: resolve_help_request_def Let_def user_exists_def
        two_help_db_def first_resolved_db_def first_help_def second_help_def example_eval)


theorem resolve_help_request_only_target_witness:
  "help_refs_ok (cur two_help_db)
   \<and> map hr_request_id (help_requests (cur two_help_db)) = [1, 1]
   \<and> map hr_status (help_requests (cur two_help_db)) = [''open'', ''open'']
   \<and> map help_id (list_open_help_requests (cur two_help_db)) = [2, 1]
   \<and> find_request (cur two_help_db) 1 \<noteq> None \<and> user_exists (cur two_help_db) (Some 2)
   \<and> (\<exists>hid db1 new. create_help_request two_help_db ''2024-02-27 08:45:00'' 1 2 ''again''
                        = (Some hid, db1)
          \<and> help_requests (cur db1) = help_requests (cur two_help_db) @ [new]
          \<and> hr_status new = ''open'')
   \<and> 1 \<in> set (map hr_id (help_requests (cur two_help_db)))
   \<and> user_exists (cur two_help_db) (Some 3)
   \<and> resolve_help_request two_help_db ''2024-02-27 09:00:00'' 1 3 ''part sent''
       = (True, first_resolved_db)
   \<and> map hr_status (help_requests (cur first_resolved_db)) = [''resolved'', ''open'']
   \<and> map help_id (list_open_help_requests (cur first_resolved_db)) = [2]"
proof -
  have refs: "help_refs_ok (cur two_help_db)"
    by (simp add: help_refs_ok_def two_help_db_def first_help_def second_help_def example_eval)
  have rq: "find_request (cur two_help_db) 1 \<noteq> None"
    by (simp add: find_request_def two_help_db_def example_eval)
  have u2: "user_exists (cur two_help_db) (Some 2)"
    by (simp add: user_exists_def two_help_db_def example_eval)
  have u3: "user_exists (cur two_help_db) (Some 3)"
    by (simp add: user_exists_def two_help_db_def example_eval)
  have tg: "1 \<in> set (map hr_id (help_requests (cur two_help_db)))"
    by (simp add: two_help_db_def first_help_def)
  have before: "map hr_request_id (help_requests (cur two_help_db)) = [1, 1]"
    "map hr_status (help_requests (cur two_help_db)) = [''open'', ''open'']"
    by (simp_all add: two_help_db_def first_help_def second_help_def)
  have after: "map hr_status (help_requests (cur first_resolved_db)) = [''resolved'', ''open'']"
    by (simp add: first_resolved_db_def first_help_def second_help_def)
  note inst = resolve_help_request_only_target
                [OF refs, where rid = 1 and who = 2 and ts = "''2024-02-27 08:45:00''"
                    and msg = "''again''" and target = 1 and resolver = 3
                    and ts' = "''2024-02-27 09:00:00''" and remark = "''part sent''"]
  from inst rq u2
  have cr: "\<exists>hid db1 new. create_help_request two_help_db ''2024-02-27 08:45:00'' 1 2 ''again''
                        = (Some hid, db1)
          \<and> help_requests (cur db1) = help_requests (cur two_help_db) @ [new]
          \<and> hr_status new = ''open''"
    by blast
  from inst tg u3 obtain db2 where
    "resolve_help_request two_help_db ''2024-02-27 09:00:00'' 1 3 ''part sent'' = (True, db2)"
    and "list_open_help_requests (cur db2)
         = filter (\<lambda>row. help_id row \<noteq> 1) (list_open_help_requests (cur two_help_db))"
    by blast
  with resolve_first_eval
  have "list_open_help_requests (cur first_resolved_db)
         = filter (\<lambda>row. help_id row \<noteq> 1) (list_open_help_requests (cur two_help_db))"
    by simp
  then have "map help_id (list_open_help_requests (cur first_resolved_db))
             = filter (\<lambda>i. i \<noteq> 1) (map help_id (list_open_help_requests (cur two_help_db)))"
    by (simp add: filter_map comp_def)
  then have listed: "map help_id (list_open_help_requests (cur first_resolved_db)) = [2]"
    by (simp add: list_two_eval)
  from refs before list_two_eval rq u2 cr tg u3 resolve_first_eval after listed
  show ?thesis by (intro conjI) assumption+
qed

end
